theory Spec2Isabelle
  imports Complex_Main
begin

section \<open>Numbers\<close>

text \<open>
  The library computes with JavaScript numbers.  Every calendar component that reaches
  the functions below is an integer (non-integers are rejected by the validators), so
  components are modelled as \<open>int\<close>.  Julian day numbers carry a fractional time of
  day and are modelled as exact rationals.  The remainder operator \<open>%\<close> of JavaScript
  truncates towards zero: its result has the sign of the dividend.
\<close>

definition jsrem :: "int \<Rightarrow> int \<Rightarrow> int" where
  "jsrem a b = (if 0 \<le> a then a mod \<bar>b\<bar> else - ((- a) mod \<bar>b\<bar>))"

text \<open>\<open>Math.round\<close> rounds half-way cases upwards.\<close>

definition jsround :: "rat \<Rightarrow> int" where
  "jsround x = floor (x + 1 / 2)"

section \<open>Constants (constants/calendar.ts)\<close>

definition HIJRI_EPOCH_JD :: rat where
  "HIJRI_EPOCH_JD = 1948439.5"

definition LUNAR_CYCLE_YEARS :: int where
  "LUNAR_CYCLE_YEARS = 30"

definition LUNAR_CYCLE_DAYS :: int where
  "LUNAR_CYCLE_DAYS = 10631"

definition LEAP_YEARS_IN_CYCLE :: "int list" where
  "LEAP_YEARS_IN_CYCLE = [2, 5, 7, 10, 13, 16, 18, 21, 24, 26, 29]"

definition COMMON_YEAR_DAYS :: int where
  "COMMON_YEAR_DAYS = 354"

definition LEAP_YEAR_DAYS :: int where
  "LEAP_YEAR_DAYS = 355"

definition MONTH_DAYS :: "int list" where
  "MONTH_DAYS = [30, 29, 30, 29, 30, 29, 30, 29, 30, 29, 30, 29]"

definition MIN_MONTH :: int where
  "MIN_MONTH = 1"

definition MAX_MONTH :: int where
  "MAX_MONTH = 12"

definition MIN_MONTH_DAY :: int where
  "MIN_MONTH_DAY = 1"

section \<open>Errors\<close>

text \<open>
  Every \<open>throw\<close> of the source is a value of this type.  \<open>InvalidMonth\<close> is thrown by
  \<open>getMonthLength\<close>, \<open>InvalidDate\<close> and \<open>InvalidTime\<close> by the \<open>HijriDate\<close>
  constructor, \<open>BeforeEpoch\<close> by the day-number conversion and the month and year
  arithmetic, \<open>InvalidOption\<close> by \<open>validateOptions\<close>; \<open>HostFailure\<close> stands for a
  failure of the host's calendar service and \<open>NullResult\<close> for the use of a \<open>null\<close>
  that a non-null assertion let through.
\<close>

datatype error = InvalidMonth | InvalidDate | InvalidTime | BeforeEpoch
  | InvalidOption | HostFailure | NullResult

section \<open>Tabular provider (calendar/providers/tabular-provider.ts)\<close>

definition tabular_isLeapYear :: "int \<Rightarrow> bool" where
  "tabular_isLeapYear year =
     (let yearInCycle = jsrem year LUNAR_CYCLE_YEARS;
          yearInCycle = (if yearInCycle \<le> 0 then yearInCycle + LUNAR_CYCLE_YEARS
                         else yearInCycle)
      in yearInCycle \<in> set LEAP_YEARS_IN_CYCLE)"

definition tabular_getMonthLength :: "int \<Rightarrow> int \<Rightarrow> error + int" where
  "tabular_getMonthLength year month =
     (if month < MIN_MONTH \<or> month > MAX_MONTH then Inl InvalidMonth
      else if month = 12 \<and> tabular_isLeapYear year then Inr 30
      else Inr (MONTH_DAYS ! nat (month - 1)))"

definition tabular_getYearLength :: "int \<Rightarrow> int" where
  "tabular_getYearLength year =
     (if tabular_isLeapYear year then LEAP_YEAR_DAYS else COMMON_YEAR_DAYS)"

text \<open>The twelve month lengths of a year, and their sum.\<close>

definition tabular_monthLengths :: "int \<Rightarrow> (error + int) list" where
  "tabular_monthLengths y = map (tabular_getMonthLength y) [1, 2, 3, 4, 5, 6, 7, 8, 9, 10, 11, 12]"

definition sumLengths :: "(error + int) list \<Rightarrow> error + int" where
  "sumLengths ls = foldl (\<lambda>acc l. case acc of Inl e \<Rightarrow> Inl e
       | Inr a \<Rightarrow> (case l of Inl e \<Rightarrow> Inl e | Inr b \<Rightarrow> Inr (a + b))) (Inr 0) ls"

section \<open>Configuration and calendar providers (calendar/config.ts, calendar/providers)\<close>

datatype IslamicCalendarType = IslamicUmalqura | IslamicTbla

text \<open>
  A Gregorian instant as JavaScript's \<open>Date\<close> shows it through its UTC getters; \<open>gmonth\<close>
  is the calendar month 1 to 12, that is \<open>getUTCMonth() + 1\<close>.
\<close>

record GDate =
  gyear :: int
  gmonth :: int
  gday :: int
  ghour :: int
  gminute :: int
  gsecond :: int

text \<open>
  The environment of a run: the global configuration (\<open>defaultCalendar\<close>, \<open>useIntl\<close>) and
  what the host platform provides.  \<open>intlSupported\<close> is the result of
  \<open>isIntlUmalquraSupported()\<close>, \<open>intlValidDay30 y m\<close> the result of the Intl provider's
  \<open>isValidDate(y, m, 30)\<close> (its probe for the length of a month),
  \<open>intlGregorianToHijri\<close> the Intl provider's conversion, and \<open>now\<close> is \<open>new Date()\<close>.
\<close>

record env =
  defaultCalendar :: IslamicCalendarType
  useIntl :: bool
  intlSupported :: bool
  intlValidDay30 :: "int \<Rightarrow> int \<Rightarrow> bool"
  intlGregorianToHijri :: "GDate \<Rightarrow> error + (int \<times> int \<times> int)"
  now :: GDate

datatype CalendarProvider = TabularCalendarProvider | IntlCalendarProvider

definition getCalendarProvider :: "env \<Rightarrow> IslamicCalendarType option \<Rightarrow> CalendarProvider" where
  "getCalendarProvider e type =
     (let calendarType = (case type of Some t \<Rightarrow> t | None \<Rightarrow> defaultCalendar e)
      in case calendarType of
           IslamicTbla \<Rightarrow> TabularCalendarProvider
         | IslamicUmalqura \<Rightarrow>
             (if useIntl e \<and> intlSupported e then IntlCalendarProvider
              else TabularCalendarProvider))"

definition intl_getMonthLength :: "env \<Rightarrow> int \<Rightarrow> int \<Rightarrow> error + int" where
  "intl_getMonthLength e year month =
     (if month < 1 \<or> month > 12 then Inl InvalidMonth
      else Inr (if intlValidDay30 e year month then 30 else 29))"

definition intl_isLeapYear :: "env \<Rightarrow> int \<Rightarrow> bool" where
  "intl_isLeapYear e year = (intl_getMonthLength e year 12 = Inr 30)"

definition intl_getYearLength :: "env \<Rightarrow> int \<Rightarrow> int" where
  "intl_getYearLength e year = (if intl_isLeapYear e year then 355 else 354)"

section \<open>Calendar queries (calendar/hijri-calendar.ts)\<close>

definition getMonthLength :: "env \<Rightarrow> int \<Rightarrow> int \<Rightarrow> IslamicCalendarType option \<Rightarrow> error + int" where
  "getMonthLength e year month calendar =
     (case getCalendarProvider e calendar of
        TabularCalendarProvider \<Rightarrow> tabular_getMonthLength year month
      | IntlCalendarProvider \<Rightarrow> intl_getMonthLength e year month)"

definition getYearLength :: "env \<Rightarrow> int \<Rightarrow> IslamicCalendarType option \<Rightarrow> int" where
  "getYearLength e year calendar =
     (case getCalendarProvider e calendar of
        TabularCalendarProvider \<Rightarrow> tabular_getYearLength year
      | IntlCalendarProvider \<Rightarrow> intl_getYearLength e year)"

definition isValidHijriDate :: "env \<Rightarrow> int \<Rightarrow> int \<Rightarrow> int \<Rightarrow> error + bool" where
  "isValidHijriDate e year month day =
     (if year < 1 then Inr False
      else if month < MIN_MONTH \<or> month > MAX_MONTH then Inr False
      else if day < MIN_MONTH_DAY then Inr False
      else case getMonthLength e year month None of
             Inl err \<Rightarrow> Inl err
           | Inr maxDay \<Rightarrow> Inr (day \<le> maxDay))"

section \<open>The HijriDate value class (calendar/hijri-date.ts)\<close>

record HijriDate =
  year :: int
  month :: int
  day :: int
  hour :: int
  minute :: int
  second :: int

text \<open>The constructor: it validates the triple against the default provider.\<close>

definition newHijriDate ::
  "env \<Rightarrow> int \<Rightarrow> int \<Rightarrow> int \<Rightarrow> int \<Rightarrow> int \<Rightarrow> int \<Rightarrow> error + HijriDate" where
  "newHijriDate e y m d h mi s =
     (case isValidHijriDate e y m d of
        Inl err \<Rightarrow> Inl err
      | Inr ok \<Rightarrow>
          if \<not> ok then Inl InvalidDate
          else if h < 0 \<or> h > 23 then Inl InvalidTime
          else if mi < 0 \<or> mi > 59 then Inl InvalidTime
          else if s < 0 \<or> s > 59 then Inl InvalidTime
          else Inr \<lparr>year = y, month = m, day = d, hour = h, minute = mi, second = s\<rparr>)"

definition clone :: "env \<Rightarrow> HijriDate \<Rightarrow> error + HijriDate" where
  "clone e this = newHijriDate e (year this) (month this) (day this)
                    (hour this) (minute this) (second this)"

definition equals :: "HijriDate \<Rightarrow> HijriDate \<Rightarrow> bool" where
  "equals this other =
     (year this = year other \<and> month this = month other \<and> day this = day other)"

definition isBefore :: "HijriDate \<Rightarrow> HijriDate \<Rightarrow> bool" where
  "isBefore this other =
     (if year this \<noteq> year other then year this < year other
      else if month this \<noteq> month other then month this < month other
      else day this < day other)"

definition isAfter :: "HijriDate \<Rightarrow> HijriDate \<Rightarrow> bool" where
  "isAfter this other =
     (if year this \<noteq> year other then year this > year other
      else if month this \<noteq> month other then month this > month other
      else day this > day other)"

definition isOnOrBefore :: "HijriDate \<Rightarrow> HijriDate \<Rightarrow> bool" where
  "isOnOrBefore this other = (equals this other \<or> isBefore this other)"

definition isOnOrAfter :: "HijriDate \<Rightarrow> HijriDate \<Rightarrow> bool" where
  "isOnOrAfter this other = (equals this other \<or> isAfter this other)"

definition compare :: "HijriDate \<Rightarrow> HijriDate \<Rightarrow> int" where
  "compare this other =
     (if year this \<noteq> year other then year this - year other
      else if month this \<noteq> month other then month this - month other
      else day this - day other)"

section \<open>Day-number conversions (calendar/hijri-converter.ts)\<close>

text \<open>
  A Julian day number is a JavaScript number, an IEEE 754 double, in the source and an
  exact rational here; counts of days, months and years are integers here.  Sums and
  differences of multiples of 1/4 below \<open>2^50\<close> are exact on doubles, so the two
  computations coincide wherever every value met is such a number: this is so for the
  day number of a date whose time of day is midnight or noon, and for all that
  \<open>julianDayToHijri\<close> derives from it.  The quotients and products under
  \<open>Math.floor\<close> in \<open>julianDayToGregorian\<close> are rounded in the source; for an
  integer \<open>z\<close> their exact values are integers or lie at least \<open>1/306001\<close> from
  one, so below \<open>2^31\<close> the rounding does not change the floor.  For other times of
  day the source rounds the fraction of the day, and the model stands for it only
  while no rounded value crosses an integer under \<open>Math.floor\<close>; the statements of
  this theory that evaluate the conversions do so at dates at midnight and at noon.
\<close>

definition gregorianToJulianDay :: "GDate \<Rightarrow> rat" where
  "gregorianToJulianDay date =
     (let year = gyear date; month = gmonth date; day = gday date;
          a = (14 - month) div 12;
          y = year + 4800 - a;
          m = month + 12 * a - 3;
          jdn = day + (153 * m + 2) div 5 + 365 * y + y div 4 - y div 100 + y div 400 - 32045;
          fraction = (of_int (ghour date) - 12) / 24 + of_int (gminute date) / 1440
                       + of_int (gsecond date) / 86400
      in of_int jdn + fraction)"

text \<open>
  \<open>julianDayToGregorian\<close> ends in \<open>new Date(Date.UTC(year, month - 1, day, hour % 24,
  minute, second))\<close>; the record below holds these six arguments, which are the UTC
  fields of the resulting \<open>Date\<close> whenever they form a calendar date in range.
\<close>

definition julianDayToGregorian :: "rat \<Rightarrow> GDate" where
  "julianDayToGregorian jdn =
     (let z = floor (jdn + 0.5);
          f = jdn + 0.5 - of_int z;
          a = (if z \<ge> 2299161
               then (let alpha = floor ((of_int z - 1867216.25) / (36524.25 :: rat))
                     in z + 1 + alpha - alpha div 4)
               else z);
          b = a + 1524;
          c = floor ((of_int b - 122.1) / (365.25 :: rat));
          d = floor (365.25 * (of_int c :: rat));
          e = floor (of_int (b - d) / (30.6001 :: rat));
          day = b - d - floor (30.6001 * (of_int e :: rat));
          month = (if e < 14 then e - 1 else e - 13);
          year = (if month > 2 then c - 4716 else c - 4715);
          totalSeconds = jsround (f * 86400);
          hour = totalSeconds div 3600 + 12;
          minute = (jsrem totalSeconds 3600) div 60;
          second = jsrem totalSeconds 60
      in \<lparr>gyear = year, gmonth = month, gday = day,
          ghour = jsrem hour 24, gminute = minute, gsecond = second\<rparr>)"

text \<open>
  The fields read by \<open>gregorianToJulianDay\<close> (\<open>getUTCFullYear()\<close>, \<open>getUTCMonth() + 1\<close>,
  \<open>getUTCDate()\<close>, ...) come from a \<open>Date\<close>, so they name a day of the proleptic
  Gregorian calendar and a time of day.
\<close>

definition utcLeapYear :: "int \<Rightarrow> bool" where
  "utcLeapYear y = (y mod 4 = 0 \<and> (y mod 100 \<noteq> 0 \<or> y mod 400 = 0))"

definition utcDaysInMonth :: "int \<Rightarrow> int \<Rightarrow> int" where
  "utcDaysInMonth y m =
     (if m = 2 then (if utcLeapYear y then 29 else 28)
      else if m = 4 \<or> m = 6 \<or> m = 9 \<or> m = 11 then 30 else 31)"

definition isUTCDate :: "GDate \<Rightarrow> bool" where
  "isUTCDate g =
     (1 \<le> gmonth g \<and> gmonth g \<le> 12 \<and> 1 \<le> gday g
      \<and> gday g \<le> utcDaysInMonth (gyear g) (gmonth g)
      \<and> 0 \<le> ghour g \<and> ghour g \<le> 23 \<and> 0 \<le> gminute g \<and> gminute g \<le> 59
      \<and> 0 \<le> gsecond g \<and> gsecond g \<le> 59)"

definition gymd :: "GDate \<Rightarrow> int \<times> int \<times> int" where
  "gymd g = (gyear g, gmonth g, gday g)"

text \<open>The loop \<open>for (let y = 1; y < yearsInCycle; y++) days += ...\<close>.\<close>

definition cycleYearLength :: "int \<Rightarrow> int" where
  "cycleYearLength y = (if y \<in> set LEAP_YEARS_IN_CYCLE then LEAP_YEAR_DAYS else COMMON_YEAR_DAYS)"

definition daysBeforeCycleYear :: "int \<Rightarrow> int" where
  "daysBeforeCycleYear yearsInCycle = sum_list (map cycleYearLength [1..yearsInCycle - 1])"

text \<open>The loop \<open>for (let m = 1; m < month; m++) days += getMonthLength(year, m)\<close>.\<close>

fun sumMonthLengths :: "env \<Rightarrow> int \<Rightarrow> int list \<Rightarrow> error + int" where
  "sumMonthLengths e y [] = Inr 0"
| "sumMonthLengths e y (m # ms) =
     (case getMonthLength e y m None of
        Inl err \<Rightarrow> Inl err
      | Inr l \<Rightarrow> (case sumMonthLengths e y ms of
                    Inl err \<Rightarrow> Inl err
                  | Inr r \<Rightarrow> Inr (l + r)))"

definition hijriToJulianDay :: "env \<Rightarrow> HijriDate \<Rightarrow> error + rat" where
  "hijriToJulianDay e hijriDate =
     (let cycles = (year hijriDate - 1) div LUNAR_CYCLE_YEARS;
          yearsInCycle = jsrem (year hijriDate - 1) LUNAR_CYCLE_YEARS + 1;
          days = cycles * LUNAR_CYCLE_DAYS + daysBeforeCycleYear yearsInCycle
      in case sumMonthLengths e (year hijriDate) [1..month hijriDate - 1] of
           Inl err \<Rightarrow> Inl err
         | Inr ms \<Rightarrow>
             (let days = days + ms + (day hijriDate - 1);
                  fraction = (of_int (hour hijriDate) - 12) / 24
                               + of_int (minute hijriDate) / 1440
                               + of_int (second hijriDate) / 86400
              in Inr (HIJRI_EPOCH_JD + of_int days + fraction)))"

text \<open>
  The year loop of \<open>julianDayToHijri\<close>: \<open>y\<close> runs from 1 to 30; the result is the pair
  (\<open>year\<close>, \<open>remainingDays\<close>) at the \<open>break\<close> or at the end of the loop.
\<close>

function yearScan :: "int \<Rightarrow> int \<Rightarrow> int \<Rightarrow> int \<times> int" where
  "yearScan y yr remainingDays =
     (if y \<le> LUNAR_CYCLE_YEARS then
        (let yearLength = cycleYearLength y
         in if remainingDays < yearLength then (yr + y, remainingDays)
            else (let remainingDays = remainingDays - yearLength
                  in if y = LUNAR_CYCLE_YEARS
                     then yearScan (y + 1) (yr + LUNAR_CYCLE_YEARS) 0
                     else yearScan (y + 1) yr remainingDays))
      else (yr, remainingDays))"
  by pat_completeness auto
termination
  by (relation "measure (\<lambda>(y, yr, r). nat (31 - y))") (auto simp add: LUNAR_CYCLE_YEARS_def)

declare yearScan.simps [simp del]

text \<open>
  The month loop of \<open>julianDayToHijri\<close>: \<open>m\<close> runs from 1 to 12; the result is the pair
  (\<open>month\<close>, \<open>remainingDays\<close>).  The converter module and the tabular provider each have
  a copy of this loop; they differ in the \<open>getMonthLength\<close> they call, which is the
  first argument here.
\<close>

function monthScan ::
  "(int \<Rightarrow> int \<Rightarrow> error + int) \<Rightarrow> int \<Rightarrow> int \<Rightarrow> int \<Rightarrow> int \<Rightarrow> error + (int \<times> int)" where
  "monthScan monthLengthOf yr m mon remainingDays =
     (if m \<le> 12 then
        (case monthLengthOf yr m of
           Inl err \<Rightarrow> Inl err
         | Inr monthLength \<Rightarrow>
             if remainingDays < monthLength then Inr (m, remainingDays)
             else (let remainingDays = remainingDays - monthLength
                   in if m = 12 then monthScan monthLengthOf yr (m + 1) 12 remainingDays
                      else monthScan monthLengthOf yr (m + 1) mon remainingDays))
      else Inr (mon, remainingDays))"
  by pat_completeness auto
termination
  by (relation "measure (\<lambda>(f, yr, m, mon, r). nat (13 - m))") auto

declare monthScan.simps [simp del]

definition julianDayToHijri :: "env \<Rightarrow> rat \<Rightarrow> error + HijriDate" where
  "julianDayToHijri e jdn =
     (let daysSinceEpoch = floor (jdn - HIJRI_EPOCH_JD + 0.5)
      in if daysSinceEpoch < 0 then Inl BeforeEpoch
         else
           (let cycles = daysSinceEpoch div LUNAR_CYCLE_DAYS;
                remainingDays = jsrem daysSinceEpoch LUNAR_CYCLE_DAYS
            in case yearScan 1 (cycles * LUNAR_CYCLE_YEARS) remainingDays of
                 (yr, remainingDays) \<Rightarrow>
                   (case monthScan (\<lambda>y m. getMonthLength e y m None) yr 1 1 remainingDays of
                      Inl err \<Rightarrow> Inl err
                    | Inr (mon, remainingDays) \<Rightarrow>
                        (let dy = remainingDays + 1;
                             fraction = jdn - of_int (floor jdn) + 0.5;
                             totalSeconds =
                               jsround ((fraction - of_int (floor fraction)) * 86400);
                             h = totalSeconds div 3600;
                             mi = (jsrem totalSeconds 3600) div 60;
                             s = jsrem totalSeconds 60
                         in newHijriDate e yr mon dy h mi s))))"

definition hijriDayOfWeek :: "env \<Rightarrow> HijriDate \<Rightarrow> error + int" where
  "hijriDayOfWeek e hijriDate =
     (case hijriToJulianDay e hijriDate of
        Inl err \<Rightarrow> Inl err
      | Inr jdn \<Rightarrow>
          (let jdnMod7 = jsrem (floor (jdn + 0.5)) 7
           in Inr (jsrem (jdnMod7 + 2) 7)))"

section \<open>The tabular provider's own conversions (tabular-provider.ts)\<close>

definition tabular_gregorianToJulianDay :: "GDate \<Rightarrow> int" where
  "tabular_gregorianToJulianDay date =
     (let year = gyear date; month = gmonth date; day = gday date;
          a = (14 - month) div 12;
          y = year + 4800 - a;
          m = month + 12 * a - 3
      in day + (153 * m + 2) div 5 + 365 * y + y div 4 - y div 100 + y div 400 - 32045)"

definition tabular_julianDayToHijri :: "rat \<Rightarrow> error + (int \<times> int \<times> int)" where
  "tabular_julianDayToHijri jdn =
     (let daysSinceEpoch = floor (jdn - HIJRI_EPOCH_JD + 0.5)
      in if daysSinceEpoch < 0 then Inl BeforeEpoch
         else
           (let cycles = daysSinceEpoch div LUNAR_CYCLE_DAYS;
                remainingDays = jsrem daysSinceEpoch LUNAR_CYCLE_DAYS
            in case yearScan 1 (cycles * LUNAR_CYCLE_YEARS) remainingDays of
                 (yr, remainingDays) \<Rightarrow>
                   (case monthScan tabular_getMonthLength yr 1 1 remainingDays of
                      Inl err \<Rightarrow> Inl err
                    | Inr (mon, remainingDays) \<Rightarrow> Inr (yr, mon, remainingDays + 1))))"

definition tabular_gregorianToHijri :: "GDate \<Rightarrow> error + (int \<times> int \<times> int)" where
  "tabular_gregorianToHijri date =
     tabular_julianDayToHijri (of_int (tabular_gregorianToJulianDay date))"

definition gregorianToHijri :: "env \<Rightarrow> GDate \<Rightarrow> IslamicCalendarType option \<Rightarrow> error + HijriDate" where
  "gregorianToHijri e date calendar =
     (case (case getCalendarProvider e calendar of
              TabularCalendarProvider \<Rightarrow> tabular_gregorianToHijri date
            | IntlCalendarProvider \<Rightarrow> intlGregorianToHijri e date) of
        Inl err \<Rightarrow> Inl err
      | Inr (y, m, d) \<Rightarrow> newHijriDate e y m d 0 0 0)"

section \<open>Date arithmetic (calendar/hijri-date-math.ts)\<close>

definition addDays :: "env \<Rightarrow> HijriDate \<Rightarrow> int \<Rightarrow> error + HijriDate" where
  "addDays e date days =
     (if days = 0 then clone e date
      else case hijriToJulianDay e date of
             Inl err \<Rightarrow> Inl err
           | Inr jdn \<Rightarrow>
               (case julianDayToHijri e (jdn + of_int days) of
                  Inl err \<Rightarrow> Inl err
                | Inr result \<Rightarrow>
                    newHijriDate e (year result) (month result) (day result)
                      (hour date) (minute date) (second date)))"

text \<open>\<open>addMonths\<close> and \<open>addYears\<close> return \<open>null\<close> (here \<open>None\<close>) when the day does not
  exist in the target month and \<open>clampDay\<close> is false.\<close>

definition addMonths :: "env \<Rightarrow> HijriDate \<Rightarrow> int \<Rightarrow> bool \<Rightarrow> error + HijriDate option" where
  "addMonths e date months clampDay =
     (if months = 0 then map_sum id Some (clone e date)
      else
        (let totalMonths = (year date - 1) * 12 + (month date - 1) + months;
             newYear = totalMonths div 12 + 1;
             newMonth = jsrem totalMonths 12 + 1;
             newYear = (if newMonth \<le> 0 then newYear - 1 else newYear);
             newMonth = (if newMonth \<le> 0 then newMonth + 12 else newMonth)
         in if newYear < 1 then Inl BeforeEpoch
            else case getMonthLength e newYear newMonth None of
                   Inl err \<Rightarrow> Inl err
                 | Inr maxDay \<Rightarrow>
                     if day date > maxDay then
                       (if clampDay
                        then map_sum id Some
                               (newHijriDate e newYear newMonth maxDay
                                  (hour date) (minute date) (second date))
                        else Inr None)
                     else map_sum id Some
                            (newHijriDate e newYear newMonth (day date)
                               (hour date) (minute date) (second date))))"

definition addYears :: "env \<Rightarrow> HijriDate \<Rightarrow> int \<Rightarrow> bool \<Rightarrow> error + HijriDate option" where
  "addYears e date years clampDay =
     (if years = 0 then map_sum id Some (clone e date)
      else
        (let newYear = year date + years
         in if newYear < 1 then Inl BeforeEpoch
            else case getMonthLength e newYear (month date) None of
                   Inl err \<Rightarrow> Inl err
                 | Inr maxDay \<Rightarrow>
                     if day date > maxDay then
                       (if clampDay
                        then map_sum id Some
                               (newHijriDate e newYear (month date) maxDay
                                  (hour date) (minute date) (second date))
                        else Inr None)
                     else map_sum id Some
                            (newHijriDate e newYear (month date) (day date)
                               (hour date) (minute date) (second date))))"

definition dayOfWeek :: "env \<Rightarrow> HijriDate \<Rightarrow> error + int" where
  "dayOfWeek e date = hijriDayOfWeek e date"

text \<open>
  The two scans of \<open>nthWeekdayOfMonth\<close>: over the days in the order given, counting
  matches in steps of \<open>step\<close> (1 forwards, -1 backwards) until the count equals \<open>n\<close>.
\<close>

fun nthWeekdayScan ::
  "env \<Rightarrow> int \<Rightarrow> int \<Rightarrow> int \<Rightarrow> int \<Rightarrow> int \<Rightarrow> int list \<Rightarrow> int \<Rightarrow> error + HijriDate option" where
  "nthWeekdayScan e yr mon weekday n step [] cnt = Inr None"
| "nthWeekdayScan e yr mon weekday n step (d # ds) cnt =
     (case newHijriDate e yr mon d 0 0 0 of
        Inl err \<Rightarrow> Inl err
      | Inr date \<Rightarrow>
          (case dayOfWeek e date of
             Inl err \<Rightarrow> Inl err
           | Inr dow \<Rightarrow>
               if dow = weekday then
                 (if cnt + step = n then Inr (Some date)
                  else nthWeekdayScan e yr mon weekday n step ds (cnt + step))
               else nthWeekdayScan e yr mon weekday n step ds cnt))"

definition nthWeekdayOfMonth :: "env \<Rightarrow> int \<Rightarrow> int \<Rightarrow> int \<Rightarrow> int \<Rightarrow> error + HijriDate option" where
  "nthWeekdayOfMonth e yr mon weekday n =
     (if n = 0 then Inr None
      else case getMonthLength e yr mon None of
             Inl err \<Rightarrow> Inl err
           | Inr monthLength \<Rightarrow>
               if n > 0 then nthWeekdayScan e yr mon weekday n 1 [1..monthLength] 0
               else nthWeekdayScan e yr mon weekday n (- 1) (rev [1..monthLength]) 0)"

section \<open>Options (types/options.ts, types/frequency.ts, types/weekday.ts)\<close>

text \<open>\<open>Frequency\<close> is a numeric enum.\<close>

definition YEARLY :: int where "YEARLY = 0"
definition MONTHLY :: int where "MONTHLY = 1"
definition WEEKLY :: int where "WEEKLY = 2"
definition DAILY :: int where "DAILY = 3"
definition HOURLY :: int where "HOURLY = 4"
definition MINUTELY :: int where "MINUTELY = 5"
definition SECONDLY :: int where "SECONDLY = 6"

definition DEFAULT_WKST :: int where "DEFAULT_WKST = 1"

datatype Skip = OMIT | FORWARD | BACKWARD

record WeekdaySpec =
  weekday :: int
  n :: "int option"

text \<open>
  \<open>HijriRRuleParsedOptions\<close>.  An optional field is an \<open>option\<close>: \<open>None\<close> is
  \<open>undefined\<close>.
\<close>

record ParsedOptions =
  freq :: int
  dtstart :: HijriDate
  interval :: int
  wkst :: int
  count :: "int option"
  until :: "HijriDate option"
  tzid :: "string option"
  bysetpos :: "int list option"
  bymonth :: "int list option"
  bymonthday :: "int list option"
  bynmonthday :: "int list option"
  byyearday :: "int list option"
  byweekno :: "int list option"
  byweekday :: "WeekdaySpec list option"
  bynweekday :: "WeekdaySpec list option"
  byhour :: "int list option"
  byminute :: "int list option"
  bysecond :: "int list option"
  skip :: Skip
  calendar :: IslamicCalendarType

section \<open>The generator (core/iterator.ts)\<close>

text \<open>The test \<open>options.x && options.x.length > 0\<close>.\<close>

definition present :: "'a list option \<Rightarrow> bool" where
  "present xs = (case xs of None \<Rightarrow> False | Some l \<Rightarrow> l \<noteq> [])"

definition elems :: "'a list option \<Rightarrow> 'a list" where
  "elems xs = (case xs of None \<Rightarrow> [] | Some l \<Rightarrow> l)"

text \<open>
  A \<open>for\<close> loop that pushes the results of its body onto \<open>candidates\<close>: the body gives
  the list of dates it pushes, or throws.
\<close>

fun collect :: "('a \<Rightarrow> error + 'b list) \<Rightarrow> 'a list \<Rightarrow> error + 'b list" where
  "collect f [] = Inr []"
| "collect f (x # xs) =
     (case f x of
        Inl err \<Rightarrow> Inl err
      | Inr r \<Rightarrow> (case collect f xs of
                    Inl err \<Rightarrow> Inl err
                  | Inr rs \<Rightarrow> Inr (r @ rs)))"

definition pushed :: "error + 'a option \<Rightarrow> error + 'a list" where
  "pushed r = (case r of Inl err \<Rightarrow> Inl err | Inr None \<Rightarrow> Inr [] | Inr (Some d) \<Rightarrow> Inr [d])"

definition tryCreateDate ::
  "env \<Rightarrow> int \<Rightarrow> int \<Rightarrow> int \<Rightarrow> Skip \<Rightarrow> IslamicCalendarType option \<Rightarrow> error + HijriDate option" where
  "tryCreateDate e yr mon dy strategy cal =
     (case getMonthLength e yr mon cal of
        Inl err \<Rightarrow> Inl err
      | Inr maxDay \<Rightarrow>
          if dy < 1 then Inr None
          else if dy > maxDay then
            (case strategy of
               OMIT \<Rightarrow> Inr None
             | BACKWARD \<Rightarrow> map_sum id Some (newHijriDate e yr mon maxDay 0 0 0)
             | FORWARD \<Rightarrow>
                 if mon = 12 then map_sum id Some (newHijriDate e (yr + 1) 1 1 0 0 0)
                 else map_sum id Some (newHijriDate e yr (mon + 1) 1 0 0 0))
          else (case newHijriDate e yr mon dy 0 0 0 of
                  Inl err \<Rightarrow> Inr None
                | Inr d \<Rightarrow> Inr (Some d)))"

text \<open>The loop of \<open>dayOfYearToDate\<close>, inside its \<open>try\<close>: any error gives \<open>null\<close>.\<close>

function dayOfYearLoop ::
  "env \<Rightarrow> int \<Rightarrow> IslamicCalendarType option \<Rightarrow> int \<Rightarrow> int \<Rightarrow> error + HijriDate option" where
  "dayOfYearLoop e yr cal mon remainingDays =
     (if mon \<le> 12 then
        (case getMonthLength e yr mon cal of
           Inl err \<Rightarrow> Inl err
         | Inr monthLength \<Rightarrow>
             if remainingDays \<le> monthLength
             then map_sum id Some (newHijriDate e yr mon remainingDays 0 0 0)
             else dayOfYearLoop e yr cal (mon + 1) (remainingDays - monthLength))
      else Inr None)"
  by pat_completeness auto
termination
  by (relation "measure (\<lambda>(e, yr, cal, mon, r). nat (13 - mon))") auto

declare dayOfYearLoop.simps [simp del]

definition dayOfYearToDate ::
  "env \<Rightarrow> int \<Rightarrow> int \<Rightarrow> IslamicCalendarType option \<Rightarrow> HijriDate option" where
  "dayOfYearToDate e yr dayOfYear cal =
     (case dayOfYearLoop e yr cal 1 dayOfYear of
        Inl err \<Rightarrow> None
      | Inr r \<Rightarrow> r)"

text \<open>
  \<open>sortAndDedupe\<close>: \<open>Array.prototype.sort\<close> with the comparator \<open>a.compare(b)\<close> is a
  stable sort; then the loop keeps a date unless it equals the last one kept.
\<close>

fun insertDate :: "HijriDate \<Rightarrow> HijriDate list \<Rightarrow> HijriDate list" where
  "insertDate x [] = [x]"
| "insertDate x (y # ys) =
     (if compare x y \<le> 0 then x # y # ys else y # insertDate x ys)"

fun sortDates :: "HijriDate list \<Rightarrow> HijriDate list" where
  "sortDates [] = []"
| "sortDates (x # xs) = insertDate x (sortDates xs)"

fun dedupe :: "HijriDate list \<Rightarrow> HijriDate list" where
  "dedupe [] = []"
| "dedupe [x] = [x]"
| "dedupe (x # y # ys) = (if equals x y then dedupe (x # ys) else x # dedupe (y # ys))"

definition sortAndDedupe :: "HijriDate list \<Rightarrow> HijriDate list" where
  "sortAndDedupe dates = dedupe (sortDates dates)"

text \<open>\<open>options.byweekday.some((wd) => wd.weekday === dow)\<close>.\<close>

definition someWeekday :: "WeekdaySpec list \<Rightarrow> int \<Rightarrow> bool" where
  "someWeekday wds dow = list_ex (\<lambda>wd. weekday wd = dow) wds"

text \<open>
  The bodies of the loops that \<open>generateYearlyCandidates\<close> and
  \<open>generateMonthlyCandidates\<close> share: one requested day through the skip-policy
  resolver, one negative month day, one nth weekday, one day of the weekday scan.
\<close>

definition negativeMonthDay :: "env \<Rightarrow> int \<Rightarrow> int \<Rightarrow> int \<Rightarrow> int \<Rightarrow> error + HijriDate list" where
  "negativeMonthDay e yr mon maxDay nday =
     (let dy = maxDay + nday + 1
      in if dy \<ge> 1 then pushed (map_sum id Some (newHijriDate e yr mon dy 0 0 0))
         else Inr [])"

definition nthWeekdayCandidate :: "env \<Rightarrow> int \<Rightarrow> int \<Rightarrow> WeekdaySpec \<Rightarrow> error + HijriDate list" where
  "nthWeekdayCandidate e yr mon wd =
     (case n wd of
        None \<Rightarrow> Inr []
      | Some k \<Rightarrow> pushed (nthWeekdayOfMonth e yr mon (weekday wd) k))"

definition weekdayScanDay ::
  "env \<Rightarrow> int \<Rightarrow> int \<Rightarrow> WeekdaySpec list \<Rightarrow> int \<Rightarrow> error + HijriDate list" where
  "weekdayScanDay e yr mon wds d =
     (case newHijriDate e yr mon d 0 0 0 of
        Inl err \<Rightarrow> Inl err
      | Inr date \<Rightarrow>
          (case dayOfWeek e date of
             Inl err \<Rightarrow> Inl err
           | Inr dow \<Rightarrow> Inr (if someWeekday wds dow then [date] else [])))"

text \<open>
  The candidates of one month: the \<open>if\<close> chain on \<open>bymonthday\<close>, \<open>bynmonthday\<close>,
  \<open>bynweekday\<close>, \<open>byweekday\<close> and the default, which is the body of the \<open>bymonth\<close>
  loop of \<open>generateYearlyCandidates\<close> and, for the period's own month, the body of
  \<open>generateMonthlyCandidates\<close>.
\<close>

definition monthCandidates ::
  "env \<Rightarrow> ParsedOptions \<Rightarrow> HijriDate \<Rightarrow> int \<Rightarrow> int \<Rightarrow> error + HijriDate list" where
  "monthCandidates e options periodStart yr mon =
     (if present (bymonthday options) then
        collect (\<lambda>dy. pushed (tryCreateDate e yr mon dy (skip options)
                                 (Some (calendar options))))
          (elems (bymonthday options))
      else if present (bynmonthday options) then
        (case getMonthLength e yr mon (Some (calendar options)) of
           Inl err \<Rightarrow> Inl err
         | Inr maxDay \<Rightarrow>
             collect (negativeMonthDay e yr mon maxDay) (elems (bynmonthday options)))
      else if present (bynweekday options) then
        collect (nthWeekdayCandidate e yr mon) (elems (bynweekday options))
      else if present (byweekday options) then
        (case getMonthLength e yr mon (Some (calendar options)) of
           Inl err \<Rightarrow> Inl err
         | Inr monthLength \<Rightarrow>
             collect (weekdayScanDay e yr mon (elems (byweekday options))) [1..monthLength])
      else
        (case getMonthLength e yr mon (Some (calendar options)) of
           Inl err \<Rightarrow> Inl err
         | Inr monthLength \<Rightarrow>
             pushed (map_sum id Some
               (newHijriDate e yr mon (min (day periodStart) monthLength) 0 0 0))))"

text \<open>The \<open>filter\<close> of \<open>generateYearlyCandidates\<close> by weekday; \<open>dayOfWeek\<close> may throw.\<close>

definition filterByWeekday ::
  "env \<Rightarrow> WeekdaySpec list \<Rightarrow> HijriDate list \<Rightarrow> error + HijriDate list" where
  "filterByWeekday e wds candidates =
     collect (\<lambda>c. case dayOfWeek e c of
                     Inl err \<Rightarrow> Inl err
                   | Inr dow \<Rightarrow> Inr (if someWeekday wds dow then [c] else []))
       candidates"

definition yearDayCandidate ::
  "env \<Rightarrow> ParsedOptions \<Rightarrow> int \<Rightarrow> int \<Rightarrow> int \<Rightarrow> error + HijriDate list" where
  "yearDayCandidate e options yr yearLength yday =
     (let actualDay = (if yday > 0 then yday else yearLength + yday + 1)
      in if actualDay \<ge> 1 \<and> actualDay \<le> yearLength
         then pushed (Inr (dayOfYearToDate e yr actualDay (Some (calendar options))))
         else Inr [])"

definition generateYearlyCandidates ::
  "env \<Rightarrow> HijriDate \<Rightarrow> ParsedOptions \<Rightarrow> error + HijriDate list" where
  "generateYearlyCandidates e periodStart options =
     (let yr = year periodStart in
      case
        (if present (bymonth options) then
           collect (monthCandidates e options periodStart yr) (elems (bymonth options))
         else if present (bymonthday options) then
           collect (\<lambda>dy. pushed (tryCreateDate e yr (month periodStart) dy (skip options)
                                    (Some (calendar options))))
             (elems (bymonthday options))
         else if present (byyearday options) then
           collect (yearDayCandidate e options yr
                      (getYearLength e yr (Some (calendar options))))
             (elems (byyearday options))
         else
           (case getMonthLength e yr (month periodStart) (Some (calendar options)) of
              Inl err \<Rightarrow> Inl err
            | Inr monthLength \<Rightarrow>
                pushed (map_sum id Some
                  (newHijriDate e yr (month periodStart)
                     (min (day periodStart) monthLength) 0 0 0))))
      of
        Inl err \<Rightarrow> Inl err
      | Inr candidates \<Rightarrow>
          (case (if present (byweekday options) \<and> bymonth options = None
                 then filterByWeekday e (elems (byweekday options)) candidates
                 else Inr candidates) of
             Inl err \<Rightarrow> Inl err
           | Inr candidates \<Rightarrow> Inr (sortAndDedupe candidates)))"

definition generateMonthlyCandidates ::
  "env \<Rightarrow> HijriDate \<Rightarrow> ParsedOptions \<Rightarrow> error + HijriDate list" where
  "generateMonthlyCandidates e periodStart options =
     (case monthCandidates e options periodStart (year periodStart) (month periodStart) of
        Inl err \<Rightarrow> Inl err
      | Inr candidates \<Rightarrow> Inr (sortAndDedupe candidates))"

definition weeklyDay :: "env \<Rightarrow> HijriDate \<Rightarrow> WeekdaySpec list \<Rightarrow> int \<Rightarrow> error + HijriDate list" where
  "weeklyDay e periodStart wds i =
     (case addDays e periodStart i of
        Inl err \<Rightarrow> Inl err
      | Inr date \<Rightarrow>
          (case dayOfWeek e date of
             Inl err \<Rightarrow> Inl err
           | Inr dow \<Rightarrow> Inr (if someWeekday wds dow then [date] else [])))"

definition generateWeeklyCandidates ::
  "env \<Rightarrow> HijriDate \<Rightarrow> ParsedOptions \<Rightarrow> error + HijriDate list" where
  "generateWeeklyCandidates e periodStart options =
     (case (if present (byweekday options)
            then collect (weeklyDay e periodStart (elems (byweekday options))) [0..6]
            else Inr [periodStart]) of
        Inl err \<Rightarrow> Inl err
      | Inr candidates \<Rightarrow> Inr (sortAndDedupe candidates))"

definition generateDailyCandidates ::
  "env \<Rightarrow> HijriDate \<Rightarrow> ParsedOptions \<Rightarrow> error + HijriDate list" where
  "generateDailyCandidates e periodStart options =
     (let candidate = periodStart in
      if present (bymonth options) \<and> month candidate \<notin> set (elems (bymonth options))
      then Inr []
      else if present (bymonthday options) \<and> day candidate \<notin> set (elems (bymonthday options))
      then Inr []
      else if present (byweekday options) then
        (case dayOfWeek e candidate of
           Inl err \<Rightarrow> Inl err
         | Inr dow \<Rightarrow>
             if \<not> someWeekday (elems (byweekday options)) dow then Inr []
             else Inr [candidate])
      else Inr [candidate])"

definition generateCandidates ::
  "env \<Rightarrow> HijriDate \<Rightarrow> ParsedOptions \<Rightarrow> error + HijriDate list" where
  "generateCandidates e periodStart options =
     (if freq options = YEARLY then generateYearlyCandidates e periodStart options
      else if freq options = MONTHLY then generateMonthlyCandidates e periodStart options
      else if freq options = WEEKLY then generateWeeklyCandidates e periodStart options
      else if freq options = DAILY then generateDailyCandidates e periodStart options
      else Inr [periodStart])"

text \<open>
  \<open>addYears(current, interval) || addYears(current, interval, true)!\<close>: both calls run
  with \<open>clampDay = true\<close>, the first by the parameter's default.
\<close>

definition orElse :: "error + 'a option \<Rightarrow> error + 'a option \<Rightarrow> error + 'a" where
  "orElse r1 r2 =
     (case r1 of
        Inl err \<Rightarrow> Inl err
      | Inr (Some d) \<Rightarrow> Inr d
      | Inr None \<Rightarrow>
          (case r2 of
             Inl err \<Rightarrow> Inl err
           | Inr (Some d) \<Rightarrow> Inr d
           | Inr None \<Rightarrow> Inl NullResult))"

definition advancePeriod :: "env \<Rightarrow> HijriDate \<Rightarrow> int \<Rightarrow> int \<Rightarrow> error + HijriDate" where
  "advancePeriod e current fr ival =
     (if fr = YEARLY then orElse (addYears e current ival True) (addYears e current ival True)
      else if fr = MONTHLY
      then orElse (addMonths e current ival True) (addMonths e current ival True)
      else if fr = WEEKLY then addDays e current (ival * 7)
      else if fr = DAILY then addDays e current ival
      else addDays e current 1)"

definition setPosIndex :: "HijriDate list \<Rightarrow> int \<Rightarrow> HijriDate list" where
  "setPosIndex candidates pos =
     (let len = int (length candidates);
          index = (if pos > 0 then pos - 1 else len + pos)
      in if index \<ge> 0 \<and> index < len then [candidates ! nat index] else [])"

definition applyBySetPos :: "HijriDate list \<Rightarrow> int list \<Rightarrow> HijriDate list" where
  "applyBySetPos candidates positions =
     sortAndDedupe (concat (map (setPosIndex candidates) positions))"

section \<open>The generator loop (core/iterator.ts, iterate)\<close>

text \<open>
  \<open>iterate\<close> is a generator.  Its consumer is the body of the \<open>for ... of\<close> loop that
  pulls from it: a function from the consumer's state and the yielded date to the new
  state and a flag, \<open>True\<close> to ask for the next date and \<open>False\<close> when the body
  \<open>break\<close>s or \<open>return\<close>s, which closes the generator at that \<open>yield\<close>.
\<close>

type_synonym 's consumer = "'s \<Rightarrow> HijriDate \<Rightarrow> 's \<times> bool"

text \<open>
  The inner loop over \<open>filtered\<close>.  The result is (\<open>stop\<close>, \<open>count\<close>, state): \<open>stop\<close>
  when the generator has returned or was closed.
\<close>

fun yieldLoop ::
  "ParsedOptions \<Rightarrow> 's consumer \<Rightarrow> HijriDate list \<Rightarrow> int \<Rightarrow> 's \<Rightarrow> bool \<times> int \<times> 's" where
  "yieldLoop options consume [] cnt s = (False, cnt, s)"
| "yieldLoop options consume (candidate # rest) cnt s =
     (if isBefore candidate (dtstart options) then yieldLoop options consume rest cnt s
      else if (case until options of None \<Rightarrow> False | Some u \<Rightarrow> isAfter candidate u)
      then (True, cnt, s)
      else (case consume s candidate of
              (s', continue) \<Rightarrow>
                if \<not> continue then (True, cnt, s')
                else (let cnt = cnt + 1
                      in if (case count options of None \<Rightarrow> False | Some c \<Rightarrow> cnt \<ge> c)
                         then (True, cnt, s')
                         else yieldLoop options consume rest cnt s')))"

text \<open>The loop over \<open>lastCandidates\<close>, after which the generator returns.\<close>

fun lastLoop ::
  "ParsedOptions \<Rightarrow> HijriDate \<Rightarrow> 's consumer \<Rightarrow> HijriDate list \<Rightarrow> int \<Rightarrow> 's \<Rightarrow> 's" where
  "lastLoop options u consume [] cnt s = s"
| "lastLoop options u consume (candidate # rest) cnt s =
     (if isOnOrBefore candidate u \<and> isOnOrAfter candidate (dtstart options) then
        (case consume s candidate of
           (s', continue) \<Rightarrow>
             if \<not> continue then s'
             else (let cnt = cnt + 1
                   in if (case count options of None \<Rightarrow> False | Some c \<Rightarrow> cnt \<ge> c)
                      then s'
                      else lastLoop options u consume rest cnt s'))
      else lastLoop options u consume rest cnt s)"

text \<open>
  The \<open>while (iterations < maxIterations)\<close> loop.  The result is the value of
  \<open>iterations\<close> when the generator ends, with the consumer's state.
\<close>

function iterLoop ::
  "env \<Rightarrow> ParsedOptions \<Rightarrow> 's consumer \<Rightarrow> int \<Rightarrow> int \<Rightarrow> HijriDate \<Rightarrow> int \<Rightarrow> 's
     \<Rightarrow> error + (int \<times> 's)" where
  "iterLoop e options consume maxIterations iterations current cnt s =
     (if iterations < maxIterations then
        (case generateCandidates e current options of
           Inl err \<Rightarrow> Inl err
         | Inr candidates \<Rightarrow>
             (case yieldLoop options consume
                     (case bysetpos options of
                        Some positions \<Rightarrow> applyBySetPos candidates positions
                      | None \<Rightarrow> candidates) cnt s of
                (stop, cnt', s') \<Rightarrow>
                  if stop then Inr (iterations + 1, s')
                  else
                    (case advancePeriod e current (freq options) (interval options) of
                       Inl err \<Rightarrow> Inl err
                     | Inr current' \<Rightarrow>
                         if (case until options of None \<Rightarrow> False
                             | Some u \<Rightarrow> isAfter current' u)
                         then
                           (case generateCandidates e current' options of
                              Inl err \<Rightarrow> Inl err
                            | Inr lastCandidates \<Rightarrow>
                                Inr (iterations + 1,
                                     lastLoop options (the (until options)) consume
                                       lastCandidates cnt' s'))
                         else iterLoop e options consume maxIterations (iterations + 1)
                                current' cnt' s')))
      else Inr (iterations, s))"
  by pat_completeness auto
termination
  by (relation "measure (\<lambda>(e, options, consume, maxIterations, iterations, current, cnt, s).
                  nat (maxIterations - iterations))") auto

declare iterLoop.simps [simp del]

definition maxIterationsOf :: "ParsedOptions \<Rightarrow> int" where
  "maxIterationsOf options =
     (case count options of
        None \<Rightarrow> 100000
      | Some c \<Rightarrow> if c \<noteq> 0 then c * 100 else 100000)"

definition iterate :: "env \<Rightarrow> ParsedOptions \<Rightarrow> 's consumer \<Rightarrow> 's \<Rightarrow> error + (int \<times> 's)" where
  "iterate e options consume s =
     iterLoop e options consume (maxIterationsOf options) 0 (dtstart options) 0 s"

text \<open>The consumer that takes every date: the sequence of the dates yielded.\<close>

definition takeAll :: "HijriDate list consumer" where
  "takeAll result date = (result @ [date], True)"

definition yielded :: "env \<Rightarrow> ParsedOptions \<Rightarrow> error + HijriDate list" where
  "yielded e options = map_sum id snd (iterate e options takeAll [])"

text \<open>\<open>getAll\<close>: the state is (\<open>result\<close>, \<open>count\<close>).\<close>

definition getAllBody :: "int \<Rightarrow> (HijriDate list \<times> int) consumer" where
  "getAllBody limit st date =
     (case st of (result, cnt) \<Rightarrow> ((result @ [date], cnt + 1), \<not> (cnt + 1 \<ge> limit)))"

definition getAll :: "env \<Rightarrow> ParsedOptions \<Rightarrow> int \<Rightarrow> error + HijriDate list" where
  "getAll e options limit =
     map_sum id (\<lambda>r. fst (snd r)) (iterate e options (getAllBody limit) ([], 0))"

definition getBetweenBody :: "HijriDate \<Rightarrow> HijriDate \<Rightarrow> bool \<Rightarrow> HijriDate list consumer" where
  "getBetweenBody after before inclusive result date =
     (if (if inclusive then isAfter date before else isOnOrAfter date before)
         \<and> \<not> equals date before
      then (result, False)
      else
        (let isAfterStart = (if inclusive then isOnOrAfter date after else isAfter date after)
         in if isAfterStart then
              (let isBeforeEnd =
                     (if inclusive then isOnOrBefore date before else isBefore date before)
               in if isBeforeEnd then (result @ [date], True) else (result, True))
            else (result, True)))"

definition getBetween ::
  "env \<Rightarrow> ParsedOptions \<Rightarrow> HijriDate \<Rightarrow> HijriDate \<Rightarrow> bool \<Rightarrow> error + HijriDate list" where
  "getBetween e options after before inclusive =
     map_sum id snd (iterate e options (getBetweenBody after before inclusive) [])"

section \<open>The rule object (rrule/hijri-rrule.ts, core/cache.ts)\<close>

text \<open>
  The cache of \<open>between\<close> results.  Its key is the string
  \<open>after.toString() _ before.toString() _ inclusive\<close>; a date's string is determined by
  its year, month and day, which stand for it here.
\<close>

type_synonym betweenKey = "(int \<times> int \<times> int) \<times> (int \<times> int \<times> int) \<times> bool"

record RRuleCache =
  allCache :: "HijriDate list option"
  betweenCache :: "betweenKey \<Rightarrow> HijriDate list option"

definition makeBetweenKey :: "HijriDate \<Rightarrow> HijriDate \<Rightarrow> bool \<Rightarrow> betweenKey" where
  "makeBetweenKey after before inclusive =
     ((year after, month after, day after), (year before, month before, day before), inclusive)"

definition newRRuleCache :: RRuleCache where
  "newRRuleCache = \<lparr>allCache = None, betweenCache = (\<lambda>k. None)\<rparr>"

record HijriRRule =
  options :: ParsedOptions
  cache :: "RRuleCache option"

definition betweenHijriBody :: "HijriDate \<Rightarrow> HijriDate \<Rightarrow> bool \<Rightarrow> HijriDate list consumer" where
  "betweenHijriBody afterHijri beforeHijri inc result date =
     (if (if inc then isAfter date beforeHijri else isOnOrAfter date beforeHijri)
         \<and> (\<not> equals date beforeHijri \<or> \<not> inc)
      then (result, False)
      else
        (let isAfterStart =
               (if inc then isOnOrAfter date afterHijri else isAfter date afterHijri);
             isBeforeEnd =
               (if inc then isOnOrBefore date beforeHijri else isBefore date beforeHijri)
         in if isAfterStart \<and> isBeforeEnd then (result @ [date], True) else (result, True)))"

text \<open>
  \<open>betweenHijri\<close> without an iterator callback, on \<open>HijriDate\<close> arguments: the result
  and the rule with its cache updated.
\<close>

definition betweenHijri ::
  "env \<Rightarrow> HijriRRule \<Rightarrow> HijriDate \<Rightarrow> HijriDate \<Rightarrow> bool \<Rightarrow> error + (HijriDate list \<times> HijriRRule)" where
  "betweenHijri e this afterHijri beforeHijri inc =
     (case (case cache this of
              None \<Rightarrow> None
            | Some c \<Rightarrow> betweenCache c (makeBetweenKey afterHijri beforeHijri inc)) of
        Some cached \<Rightarrow> Inr (cached, this)
      | None \<Rightarrow>
          (case iterate e (options this) (betweenHijriBody afterHijri beforeHijri inc) [] of
             Inl err \<Rightarrow> Inl err
           | Inr (iterations, result) \<Rightarrow>
               Inr (result,
                    (case cache this of
                       None \<Rightarrow> this
                     | Some c \<Rightarrow>
                         this\<lparr>cache := Some (c\<lparr>betweenCache :=
                           (betweenCache c)(makeBetweenKey afterHijri beforeHijri inc
                              \<mapsto> result)\<rparr>)\<rparr>))))"

definition allHijri :: "env \<Rightarrow> HijriRRule \<Rightarrow> error + (HijriDate list \<times> HijriRRule)" where
  "allHijri e this =
     (case (case cache this of None \<Rightarrow> None | Some c \<Rightarrow> allCache c) of
        Some cached \<Rightarrow> Inr (cached, this)
      | None \<Rightarrow>
          (case iterate e (options this) takeAll [] of
             Inl err \<Rightarrow> Inl err
           | Inr (iterations, result) \<Rightarrow>
               Inr (result,
                    (case cache this of
                       None \<Rightarrow> this
                     | Some c \<Rightarrow> this\<lparr>cache := Some (c\<lparr>allCache := Some result\<rparr>)\<rparr>))))"

section \<open>The normalizer (core/options-parser.ts)\<close>

text \<open>A field that takes a value or an array of values.\<close>

datatype 'a oneOrMany = One 'a | Many "'a list"

text \<open>
  A weekday given as a number, as a \<open>HijriWeekday\<close> object or as a plain
  \<open>WeekdaySpec\<close> object; a start or end date given as a \<open>Date\<close>, as a \<open>HijriDate\<close>
  object or as a plain object with a year, a month and a day.
\<close>

datatype WeekdayInput = WeekdayNumber int | HijriWeekdayInput WeekdaySpec
  | WeekdaySpecInput WeekdaySpec

datatype DateInput = GregorianInput GDate | HijriInput HijriDate | HijriLikeInput int int int

text \<open>
  \<open>HijriRRulePartialOptions\<close>, as a caller can pass it: every field may be missing.
  The fields carry a prime to tell them from those of the parsed options.
\<close>

record PartialOptions =
  freq' :: "int option"
  dtstart' :: "DateInput option"
  interval' :: "int option"
  wkst' :: "int option"
  count' :: "int option"
  until' :: "DateInput option"
  tzid' :: "string option"
  bysetpos' :: "int oneOrMany option"
  bymonth' :: "int oneOrMany option"
  bymonthday' :: "int oneOrMany option"
  byyearday' :: "int oneOrMany option"
  byweekno' :: "int oneOrMany option"
  byweekday' :: "WeekdayInput oneOrMany option"
  byhour' :: "int oneOrMany option"
  byminute' :: "int oneOrMany option"
  bysecond' :: "int oneOrMany option"
  skip' :: "Skip option"
  calendar' :: "IslamicCalendarType option"

definition toArray :: "'a oneOrMany option \<Rightarrow> 'a list option" where
  "toArray v = (case v of None \<Rightarrow> None | Some (One x) \<Rightarrow> Some [x] | Some (Many xs) \<Rightarrow> Some xs)"

definition normalizeWeekday :: "WeekdayInput \<Rightarrow> WeekdaySpec" where
  "normalizeWeekday v =
     (case v of
        WeekdayNumber k \<Rightarrow> \<lparr>weekday = k, n = None\<rparr>
      | HijriWeekdayInput w \<Rightarrow> \<lparr>weekday = weekday w, n = n w\<rparr>
      | WeekdaySpecInput w \<Rightarrow> w)"

definition normalizeWeekdays :: "WeekdayInput oneOrMany option \<Rightarrow> WeekdaySpec list option" where
  "normalizeWeekdays v =
     (case v of
        None \<Rightarrow> None
      | Some (One x) \<Rightarrow> Some (map normalizeWeekday [x])
      | Some (Many xs) \<Rightarrow> Some (map normalizeWeekday xs))"

definition toHijriDate :: "env \<Rightarrow> DateInput \<Rightarrow> error + HijriDate" where
  "toHijriDate e v =
     (case v of
        GregorianInput g \<Rightarrow> gregorianToHijri e g None
      | HijriInput h \<Rightarrow> Inr h
      | HijriLikeInput y m d \<Rightarrow> newHijriDate e y m d 0 0 0)"

definition nonEmptyOrUndefined :: "'a list \<Rightarrow> 'a list option" where
  "nonEmptyOrUndefined xs = (if length xs > 0 then Some xs else None)"

definition separateMonthDays :: "int list option \<Rightarrow> int list option \<times> int list option" where
  "separateMonthDays days =
     (case days of
        None \<Rightarrow> (None, None)
      | Some ds \<Rightarrow>
          (nonEmptyOrUndefined (filter (\<lambda>d. d > 0) ds),
           nonEmptyOrUndefined (filter (\<lambda>d. \<not> d > 0 \<and> d < 0) ds)))"

definition separateWeekdays ::
  "WeekdaySpec list option \<Rightarrow> WeekdaySpec list option \<times> WeekdaySpec list option" where
  "separateWeekdays weekdays =
     (case weekdays of
        None \<Rightarrow> (None, None)
      | Some wds \<Rightarrow>
          (nonEmptyOrUndefined (filter (\<lambda>wd. \<not> n wd \<noteq> None) wds),
           nonEmptyOrUndefined (filter (\<lambda>wd. n wd \<noteq> None) wds)))"

text \<open>
  The checks of \<open>validateOptions\<close>, in its order.  \<open>Number.isInteger\<close> holds of every
  \<open>int\<close>.  \<open>allIn\<close> is the loop over one array that throws at the first bad element.
\<close>

definition allIn :: "int oneOrMany option \<Rightarrow> (int \<Rightarrow> bool) \<Rightarrow> bool" where
  "allIn v ok = (case toArray v of None \<Rightarrow> True | Some xs \<Rightarrow> list_all ok xs)"

definition validateOptions :: "PartialOptions \<Rightarrow> error + unit" where
  "validateOptions opts =
     (case freq' opts of
        None \<Rightarrow> Inl InvalidOption
      | Some f \<Rightarrow>
          if f < YEARLY \<or> f > SECONDLY then Inl InvalidOption
          else if (case interval' opts of None \<Rightarrow> False | Some i \<Rightarrow> i < 1)
          then Inl InvalidOption
          else if (case count' opts of None \<Rightarrow> False | Some c \<Rightarrow> c < 0)
          then Inl InvalidOption
          else if \<not> allIn (bymonth' opts) (\<lambda>m. \<not> (m < 1 \<or> m > 12)) then Inl InvalidOption
          else if \<not> allIn (bymonthday' opts) (\<lambda>d. \<not> (d = 0 \<or> d < - 30 \<or> d > 30))
          then Inl InvalidOption
          else if \<not> allIn (byyearday' opts) (\<lambda>d. \<not> (d = 0 \<or> d < - 355 \<or> d > 355))
          then Inl InvalidOption
          else if \<not> allIn (bysetpos' opts) (\<lambda>p. \<not> (p = 0 \<or> p < - 366 \<or> p > 366))
          then Inl InvalidOption
          else if \<not> allIn (byhour' opts) (\<lambda>h. \<not> (h < 0 \<or> h > 23)) then Inl InvalidOption
          else if \<not> allIn (byminute' opts) (\<lambda>m. \<not> (m < 0 \<or> m > 59)) then Inl InvalidOption
          else if \<not> allIn (bysecond' opts) (\<lambda>s. \<not> (s < 0 \<or> s > 59)) then Inl InvalidOption
          else Inr ())"

definition parseOptions :: "env \<Rightarrow> PartialOptions \<Rightarrow> error + ParsedOptions" where
  "parseOptions e opts =
     (case validateOptions opts of
        Inl err \<Rightarrow> Inl err
      | Inr u \<Rightarrow>
          (case (case dtstart' opts of
                   Some v \<Rightarrow> toHijriDate e v
                 | None \<Rightarrow> gregorianToHijri e (now e) None) of
             Inl err \<Rightarrow> Inl err
           | Inr start \<Rightarrow>
               (case (case until' opts of
                        Some v \<Rightarrow> map_sum id Some (toHijriDate e v)
                      | None \<Rightarrow> Inr None) of
                  Inl err \<Rightarrow> Inl err
                | Inr end \<Rightarrow>
                    (let monthDays = separateMonthDays (toArray (bymonthday' opts));
                         weekdays = separateWeekdays (normalizeWeekdays (byweekday' opts))
                     in Inr \<lparr>freq = the (freq' opts),
                             dtstart = start,
                             interval = (case interval' opts of Some i \<Rightarrow> i | None \<Rightarrow> 1),
                             wkst = (case wkst' opts of Some w \<Rightarrow> w | None \<Rightarrow> DEFAULT_WKST),
                             count = count' opts,
                             until = end,
                             tzid = tzid' opts,
                             bysetpos = toArray (bysetpos' opts),
                             bymonth = toArray (bymonth' opts),
                             bymonthday = fst monthDays,
                             bynmonthday = snd monthDays,
                             byyearday = toArray (byyearday' opts),
                             byweekno = toArray (byweekno' opts),
                             byweekday = fst weekdays,
                             bynweekday = snd weekdays,
                             byhour = toArray (byhour' opts),
                             byminute = toArray (byminute' opts),
                             bysecond = toArray (bysecond' opts),
                             skip = (case skip' opts of Some s \<Rightarrow> s | None \<Rightarrow> OMIT),
                             calendar = (case calendar' opts of Some c \<Rightarrow> c
                                         | None \<Rightarrow> defaultCalendar e)\<rparr>))))"

text \<open>
  A parsed options object passed where partial options are expected: the fields that
  \<open>parseOptions\<close> reads are there under the same names, holding arrays and \<open>HijriDate\<close>
  objects; \<open>bynmonthday\<close> and \<open>bynweekday\<close> are fields it does not read.
\<close>

definition asPartial :: "ParsedOptions \<Rightarrow> PartialOptions" where
  "asPartial p =
     \<lparr>freq' = Some (freq p),
      dtstart' = Some (HijriInput (dtstart p)),
      interval' = Some (interval p),
      wkst' = Some (wkst p),
      count' = count p,
      until' = map_option HijriInput (until p),
      tzid' = tzid p,
      bysetpos' = map_option Many (bysetpos p),
      bymonth' = map_option Many (bymonth p),
      bymonthday' = map_option Many (bymonthday p),
      byyearday' = map_option Many (byyearday p),
      byweekno' = map_option Many (byweekno p),
      byweekday' = map_option (\<lambda>ws. Many (map WeekdaySpecInput ws)) (byweekday p),
      byhour' = map_option Many (byhour p),
      byminute' = map_option Many (byminute p),
      bysecond' = map_option Many (bysecond p),
      skip' = Some (skip p),
      calendar' = Some (calendar p)\<rparr>"

text \<open>The constructor of \<open>HijriRRule\<close>.\<close>

definition newHijriRRule :: "env \<Rightarrow> PartialOptions \<Rightarrow> bool \<Rightarrow> error + HijriRRule" where
  "newHijriRRule e opts noCache =
     (case parseOptions e opts of
        Inl err \<Rightarrow> Inl err
      | Inr parsed \<Rightarrow>
          Inr \<lparr>options = parsed,
               cache = (if \<not> noCache then Some newRRuleCache else None)\<rparr>)"

section \<open>Environments and rules of the scenarios\<close>

text \<open>
  The tabular backend: the global default calendar is \<open>islamic-tbla\<close>, as in the
  repository's tests.  The host fields are not consulted on it.
\<close>

definition tabularEnv :: env where
  "tabularEnv =
     \<lparr>defaultCalendar = IslamicTbla, useIntl = True, intlSupported = True,
      intlValidDay30 = (\<lambda>y m. False),
      intlGregorianToHijri = (\<lambda>g. Inl HostFailure),
      now = \<lparr>gyear = 2025, gmonth = 1, gday = 1, ghour = 0, gminute = 0, gsecond = 0\<rparr>\<rparr>"

definition hijri :: "int \<Rightarrow> int \<Rightarrow> int \<Rightarrow> HijriDate" where
  "hijri y m d = \<lparr>year = y, month = m, day = d, hour = 0, minute = 0, second = 0\<rparr>"

definition noOptions :: PartialOptions where
  "noOptions =
     \<lparr>freq' = None, dtstart' = None, interval' = None, wkst' = None, count' = None,
      until' = None, tzid' = None, bysetpos' = None, bymonth' = None, bymonthday' = None,
      byyearday' = None, byweekno' = None, byweekday' = None, byhour' = None,
      byminute' = None, bysecond' = None, skip' = None, calendar' = None\<rparr>"

text \<open>The dates of a list as (year, month, day) triples.\<close>

definition ymd :: "HijriDate \<Rightarrow> int \<times> int \<times> int" where
  "ymd d = (year d, month d, day d)"

text \<open>Parse, then enumerate: \<open>new HijriRRule(opts).allHijri()\<close>, as triples.\<close>

definition allOf :: "env \<Rightarrow> PartialOptions \<Rightarrow> error + (int \<times> int \<times> int) list" where
  "allOf e opts =
     (case newHijriRRule e opts False of
        Inl err \<Rightarrow> Inl err
      | Inr rule \<Rightarrow> map_sum id (\<lambda>r. map ymd (fst r)) (allHijri e rule))"

text \<open>
  The rule of the skip-policy scenarios: MONTHLY, \<open>bymonthday = 30\<close>, start
  (1446, 1, 30), \<open>count = 3\<close>, on the tabular calendar, with the given skip policy.
\<close>

definition monthlyDay30 :: "Skip \<Rightarrow> PartialOptions" where
  "monthlyDay30 s =
     noOptions\<lparr>freq' := Some MONTHLY, bymonthday' := Some (One 30),
       dtstart' := Some (HijriInput (hijri 1446 1 30)), count' := Some 3, skip' := Some s,
       calendar' := Some IslamicTbla\<rparr>"

text \<open>
  The rule of the \<open>between\<close> scenario: MONTHLY, \<open>bymonthday = 1\<close>, start (1446, 1, 1),
  on the tabular calendar, with neither a count nor an end date.
\<close>

definition monthlyDay1 :: PartialOptions where
  "monthlyDay1 =
     noOptions\<lparr>freq' := Some MONTHLY, bymonthday' := Some (One 1),
       dtstart' := Some (HijriInput (hijri 1446 1 1)), calendar' := Some IslamicTbla\<rparr>"

text \<open>Two \<open>betweenHijri\<close> queries in a row on one rule object, the second on the cache
  that the first has filled; the results as triples.\<close>

definition betweenTwice ::
  "env \<Rightarrow> PartialOptions \<Rightarrow> HijriDate \<Rightarrow> HijriDate \<Rightarrow> bool \<Rightarrow> bool
     \<Rightarrow> error + ((int \<times> int \<times> int) list \<times> (int \<times> int \<times> int) list)" where
  "betweenTwice e opts a b inc1 inc2 =
     (case newHijriRRule e opts False of
        Inl err \<Rightarrow> Inl err
      | Inr rule \<Rightarrow>
          (case betweenHijri e rule a b inc1 of
             Inl err \<Rightarrow> Inl err
           | Inr (r1, rule1) \<Rightarrow>
               (case betweenHijri e rule1 a b inc2 of
                  Inl err \<Rightarrow> Inl err
                | Inr (r2, rule2) \<Rightarrow> Inr (map ymd r1, map ymd r2))))"

text \<open>The same query through \<open>getBetween\<close> of the iterator module.\<close>

definition getBetweenOf ::
  "env \<Rightarrow> PartialOptions \<Rightarrow> HijriDate \<Rightarrow> HijriDate \<Rightarrow> bool \<Rightarrow> error + (int \<times> int \<times> int) list" where
  "getBetweenOf e opts a b inc =
     (case parseOptions e opts of
        Inl err \<Rightarrow> Inl err
      | Inr parsed \<Rightarrow> map_sum id (map ymd) (getBetween e parsed a b inc))"

text \<open>
  A rule with no filter at all: MONTHLY from (1446, 1, 30) on the tabular calendar,
  \<open>count = 3\<close>.
\<close>

definition monthlyFrom30 :: PartialOptions where
  "monthlyFrom30 =
     noOptions\<lparr>freq' := Some MONTHLY, dtstart' := Some (HijriInput (hijri 1446 1 30)),
       count' := Some 3, calendar' := Some IslamicTbla\<rparr>"

text \<open>Normalizing the output of the normalizer.\<close>

definition reparse :: "env \<Rightarrow> PartialOptions \<Rightarrow> error + ParsedOptions" where
  "reparse e opts =
     (case parseOptions e opts of
        Inl err \<Rightarrow> Inl err
      | Inr p \<Rightarrow> parseOptions e (asPartial p))"

text \<open>MONTHLY on the last day of the month, from (1446, 1, 1), on the tabular calendar.\<close>

definition monthlyLastDay :: PartialOptions where
  "monthlyLastDay =
     noOptions\<lparr>freq' := Some MONTHLY, bymonthday' := Some (One (- 1)),
       dtstart' := Some (HijriInput (hijri 1446 1 1)), calendar' := Some IslamicTbla\<rparr>"

text \<open>MONTHLY from (1446, 1, 1) with \<open>bymonth\<close> given as an empty array.\<close>

definition monthlyNoMonths :: PartialOptions where
  "monthlyNoMonths =
     noOptions\<lparr>freq' := Some MONTHLY, bymonth' := Some (Many []),
       dtstart' := Some (HijriInput (hijri 1446 1 1)), calendar' := Some IslamicTbla\<rparr>"

text \<open>The parsed options of \<open>monthlyDay30 OMIT\<close>.\<close>

definition monthlyDay30Parsed :: ParsedOptions where
  "monthlyDay30Parsed =
     \<lparr>freq = 1, dtstart = hijri 1446 1 30, interval = 1, wkst = 1, count = Some 3,
      until = None, tzid = None, bysetpos = None, bymonth = None, bymonthday = Some [30],
      bynmonthday = None, byyearday = None, byweekno = None, byweekday = None,
      bynweekday = None, byhour = None, byminute = None, bysecond = None, skip = OMIT,
      calendar = IslamicTbla\<rparr>"

text \<open>
  A rule that never matches: YEARLY on day 30 of month 2, which has 29 days in every
  year of the tabular calendar, from (1446, 2, 1), with the given count.
\<close>

definition yearlySafar30 :: "int option \<Rightarrow> PartialOptions" where
  "yearlySafar30 c =
     noOptions\<lparr>freq' := Some YEARLY, bymonth' := Some (One 2), bymonthday' := Some (One 30),
       dtstart' := Some (HijriInput (hijri 1446 2 1)), count' := c,
       calendar' := Some IslamicTbla\<rparr>"

text \<open>Parse, then run the generator for every date: the number of passes of its loop and
  the dates yielded.\<close>

definition runRule :: "env \<Rightarrow> PartialOptions \<Rightarrow> error + (int \<times> (int \<times> int \<times> int) list)" where
  "runRule e opts =
     (case parseOptions e opts of
        Inl err \<Rightarrow> Inl err
      | Inr p \<Rightarrow> map_sum id (\<lambda>r. (fst r, map ymd (snd r))) (iterate e p takeAll []))"

text \<open>The parsed options of \<open>yearlySafar30 c\<close>.\<close>

definition yearlySafar30Parsed :: "int option \<Rightarrow> ParsedOptions" where
  "yearlySafar30Parsed c =
     \<lparr>freq = 0, dtstart = hijri 1446 2 1, interval = 1, wkst = 1, count = c,
      until = None, tzid = None, bysetpos = None, bymonth = Some [2], bymonthday = Some [30],
      bynmonthday = None, byyearday = None, byweekno = None, byweekday = None,
      bynweekday = None, byhour = None, byminute = None, bysecond = None, skip = OMIT,
      calendar = IslamicTbla\<rparr>"

text \<open>
  The library's default configuration on a host that supports the Umm al-Qura calendar:
  the default calendar is \<open>islamic-umalqura\<close>, served by the Intl provider.  The host's
  month lengths are those of the Umm al-Qura calendar where the scenarios need them:
  the year 1445 (19 July 2023 to 6 July 2024) has the month lengths 29, 30, 30, 30, 29,
  30, 29, 29, 30, 29, 29, 30, that is 354 days, and month 9 of 1446 has 29 days, as the
  repository's README notes; elsewhere the table below follows the tabular pattern.
\<close>

definition umalquraDay30 :: "int \<Rightarrow> int \<Rightarrow> bool" where
  "umalquraDay30 y m =
     (if y = 1445 then m \<in> {2, 3, 4, 6, 9, 12}
      else if y = 1446 \<and> m = 9 then False
      else tabular_getMonthLength y m = Inr 30)"

definition umalquraEnv :: env where
  "umalquraEnv =
     \<lparr>defaultCalendar = IslamicUmalqura, useIntl = True, intlSupported = True,
      intlValidDay30 = umalquraDay30,
      intlGregorianToHijri = (\<lambda>g. Inl HostFailure),
      now = \<lparr>gyear = 2025, gmonth = 1, gday = 1, ghour = 0, gminute = 0, gsecond = 0\<rparr>\<rparr>"

text \<open>
  A rule on the tabular calendar under the default configuration: MONTHLY on the last
  day of the month, from (1446, 9, 1).
\<close>

definition tabularLastDayOfRamadan :: PartialOptions where
  "tabularLastDayOfRamadan =
     noOptions\<lparr>freq' := Some MONTHLY, bymonthday' := Some (One (- 1)),
       dtstart' := Some (HijriInput (hijri 1446 9 1)), count' := Some 1,
       calendar' := Some IslamicTbla\<rparr>"

text \<open>A DAILY rule from the day before the last day of 1445, \<open>count = 3\<close>, with the
  default calendar.\<close>

definition dailyFromYearEnd :: PartialOptions where
  "dailyFromYearEnd =
     noOptions\<lparr>freq' := Some DAILY, dtstart' := Some (HijriInput (hijri 1445 12 29)),
       count' := Some 3\<rparr>"

text \<open>Dates at midnight UTC, as the fields of a \<open>Date\<close>.\<close>

definition utcMidnight :: "int \<Rightarrow> int \<Rightarrow> int \<Rightarrow> GDate" where
  "utcMidnight Y M D =
     \<lparr>gyear = Y, gmonth = M, gday = D, ghour = 0, gminute = 0, gsecond = 0\<rparr>"

text \<open>
  The rule of the \<open>between\<close> scenario with a count: on day 1 of every month from
  (1446, 1, 1), which is itself an occurrence.
\<close>

definition monthlyDay1Count :: "int \<Rightarrow> PartialOptions" where
  "monthlyDay1Count c = monthlyDay1\<lparr>count' := Some c\<rparr>"
section \<open>The tabular leap cycle\<close>

lemma jsrem_pos: "0 \<le> a \<Longrightarrow> 0 < b \<Longrightarrow> jsrem a b = a mod b"
  by (simp add: jsrem_def)

lemma tabular_isLeapYear_pos:
  assumes "1 \<le> y"
  shows "tabular_isLeapYear y =
    ((if y mod 30 = 0 then 30 else y mod 30) \<in> {2, 5, 7, 10, 13, 16, 18, 21, 24, 26, 29})"
proof -
  have r: "jsrem y 30 = y mod 30"
    using assms by (simp add: jsrem_pos)
  have nn: "0 \<le> y mod 30"
    by simp
  show ?thesis
  proof (cases "y mod 30 = 0")
    case True
    then show ?thesis
      by (simp add: tabular_isLeapYear_def Let_def r LUNAR_CYCLE_YEARS_def
          LEAP_YEARS_IN_CYCLE_def)
  next
    case False
    with nn have "0 < y mod 30"
      by linarith
    with False show ?thesis
      by (simp add: tabular_isLeapYear_def Let_def r LUNAR_CYCLE_YEARS_def
          LEAP_YEARS_IN_CYCLE_def)
  qed
qed

lemma tabular_getMonthLength_12:
  "tabular_getMonthLength y 12 = Inr (if tabular_isLeapYear y then 30 else 29)"
  by (simp add: tabular_getMonthLength_def MIN_MONTH_def MAX_MONTH_def MONTH_DAYS_def)

lemma tabular_getMonthLength_other:
  assumes "1 \<le> m" and "m < 12"
  shows "tabular_getMonthLength y m = Inr (if odd m then 30 else 29)"
proof -
  from assms have "m = 1 \<or> m = 2 \<or> m = 3 \<or> m = 4 \<or> m = 5 \<or> m = 6 \<or> m = 7
      \<or> m = 8 \<or> m = 9 \<or> m = 10 \<or> m = 11"
    by arith
  then show ?thesis
    by (auto simp add: tabular_getMonthLength_def MIN_MONTH_def MAX_MONTH_def
        MONTH_DAYS_def)
qed

lemma tabular_year_sum:
  "sumLengths (tabular_monthLengths y) = Inr (if tabular_isLeapYear y then 355 else 354)"
  by (simp add: sumLengths_def tabular_monthLengths_def tabular_getMonthLength_def
      MIN_MONTH_def MAX_MONTH_def MONTH_DAYS_def)

text \<open>
  C5.  For every year \<open>y \<ge> 1\<close> the tabular provider's \<open>isLeapYear\<close> is true exactly
  when \<open>y mod 30\<close>, with remainder 0 read as 30, is one of 2, 5, 7, 10, 13, 16, 18, 21,
  24, 26, 29, and exactly when \<open>getMonthLength(y, 12)\<close> returns 30; every month
  \<open>m < 12\<close> has 30 days when \<open>m\<close> is odd and 29 when it is even; the twelve month
  lengths add up to 355 in a leap year and to 354 otherwise.
\<close>

theorem tabular_leap_cycle:
  assumes "1 \<le> y"
  shows "tabular_isLeapYear y =
      ((if y mod 30 = 0 then 30 else y mod 30) \<in> {2, 5, 7, 10, 13, 16, 18, 21, 24, 26, 29})
    \<and> tabular_isLeapYear y = (tabular_getMonthLength y 12 = Inr 30)
    \<and> (\<forall>m. 1 \<le> m \<and> m < 12 \<longrightarrow>
           tabular_getMonthLength y m = Inr (if odd m then 30 else 29))
    \<and> sumLengths (tabular_monthLengths y) =
           Inr (if tabular_isLeapYear y then 355 else 354)"
proof -
  have a: "tabular_isLeapYear y =
      ((if y mod 30 = 0 then 30 else y mod 30) \<in> {2, 5, 7, 10, 13, 16, 18, 21, 24, 26, 29})"
    using assms by (rule tabular_isLeapYear_pos)
  have b: "tabular_isLeapYear y = (tabular_getMonthLength y 12 = Inr 30)"
    by (simp add: tabular_getMonthLength_12)
  have c: "\<forall>m. 1 \<le> m \<and> m < 12 \<longrightarrow>
           tabular_getMonthLength y m = Inr (if odd m then 30 else 29)"
    using tabular_getMonthLength_other by blast
  have d: "sumLengths (tabular_monthLengths y) =
           Inr (if tabular_isLeapYear y then 355 else 354)"
    by (rule tabular_year_sum)
  from a b c d show ?thesis
    by blast
qed

theorem tabular_leap_cycle_witness:
  "(1::int) \<le> 1447
   \<and> tabular_isLeapYear 1447
   \<and> tabular_getMonthLength 1447 12 = Inr 30
   \<and> tabular_getMonthLength 1447 9 = Inr 30
   \<and> sumLengths (tabular_monthLengths 1447) = Inr 355"
proof -
  have h: "(1::int) \<le> 1447"
    by simp
  have leap: "tabular_isLeapYear 1447"
    by (simp add: tabular_isLeapYear_def jsrem_def LUNAR_CYCLE_YEARS_def
        LEAP_YEARS_IN_CYCLE_def)
  have m9: "(1::int) \<le> 9 \<and> (9::int) < 12"
    by simp
  note t = tabular_leap_cycle [OF h]
  from t m9 have "tabular_getMonthLength 1447 9 = Inr (if odd (9::int) then 30 else 29)"
    by blast
  then have n: "tabular_getMonthLength 1447 9 = Inr 30"
    by simp
  from t leap have l12: "tabular_getMonthLength 1447 12 = Inr 30"
    by blast
  from t leap have s: "sumLengths (tabular_monthLengths 1447) = Inr 355"
    by simp
  show ?thesis
    using h leap n l12 s by blast
qed

section \<open>Month lengths and date construction\<close>

lemma getMonthLength_29_30:
  assumes "getMonthLength e y m cal = Inr L"
  shows "L = 29 \<or> L = 30" and "1 \<le> m" and "m \<le> 12"
proof -
  have r: "(L = 29 \<or> L = 30) \<and> 1 \<le> m \<and> m \<le> 12"
  proof (cases "getCalendarProvider e cal")
    case TabularCalendarProvider
    with assms have t: "tabular_getMonthLength y m = Inr L"
      by (simp add: getMonthLength_def)
    then have rng: "1 \<le> m \<and> m \<le> 12"
      by (simp add: tabular_getMonthLength_def MIN_MONTH_def MAX_MONTH_def split: if_splits)
    then have "m = 1 \<or> m = 2 \<or> m = 3 \<or> m = 4 \<or> m = 5 \<or> m = 6 \<or> m = 7
      \<or> m = 8 \<or> m = 9 \<or> m = 10 \<or> m = 11 \<or> m = 12"
      by arith
    with t have "L = 29 \<or> L = 30"
      by (auto simp add: tabular_getMonthLength_def MIN_MONTH_def MAX_MONTH_def
          MONTH_DAYS_def split: if_splits)
    with rng show ?thesis
      by simp
  next
    case IntlCalendarProvider
    with assms show ?thesis
      by (auto simp add: getMonthLength_def intl_getMonthLength_def split: if_splits)
  qed
  from r show "L = 29 \<or> L = 30" and "1 \<le> m" and "m \<le> 12"
    by simp_all
qed

lemma getMonthLength_same_provider:
  "getCalendarProvider e cal = getCalendarProvider e None \<Longrightarrow>
   getMonthLength e y m cal = getMonthLength e y m None"
  by (simp add: getMonthLength_def)

lemma getMonthLength_total:
  assumes "1 \<le> m" and "m \<le> 12"
  shows "\<exists>L. getMonthLength e y m cal = Inr L"
  using assms
  by (cases "getCalendarProvider e cal")
    (auto simp add: getMonthLength_def tabular_getMonthLength_def intl_getMonthLength_def
      MIN_MONTH_def MAX_MONTH_def)

lemma newHijriDate_valid:
  assumes "1 \<le> y" and "getMonthLength e y m None = Inr L" and "1 \<le> d" and "d \<le> L"
    and "0 \<le> h" "h \<le> 23" "0 \<le> mi" "mi \<le> 59" "0 \<le> s" "s \<le> 59"
  shows "newHijriDate e y m d h mi s =
           Inr \<lparr>year = y, month = m, day = d, hour = h, minute = mi, second = s\<rparr>"
proof -
  from getMonthLength_29_30 [OF assms(2)] have "1 \<le> m" "m \<le> 12"
    by simp_all
  with assms show ?thesis
    by (simp add: newHijriDate_def isValidHijriDate_def MIN_MONTH_def MAX_MONTH_def
        MIN_MONTH_DAY_def)
qed

section \<open>The skip-policy resolver\<close>

text \<open>
  Where the rule's calendar is served by the provider that validates dates, and \<open>L\<close>
  is the length of month \<open>(y, m)\<close>, the resolver follows the skip policy.
\<close>

lemma tryCreateDate_policy:
  assumes y: "1 \<le> y" and d: "1 \<le> d"
    and same: "getCalendarProvider e cal = getCalendarProvider e None"
    and len: "getMonthLength e y m cal = Inr L"
  shows "tryCreateDate e y m d p cal =
     Inr (if d \<le> L then Some (hijri y m d)
          else (case p of
                  OMIT \<Rightarrow> None
                | BACKWARD \<Rightarrow> Some (hijri y m L)
                | FORWARD \<Rightarrow> Some (if m = 12 then hijri (y + 1) 1 1 else hijri y (m + 1) 1)))"
proof -
  note L = getMonthLength_29_30 [OF len]
  from len getMonthLength_same_provider [OF same, of y m]
  have lenD: "getMonthLength e y m None = Inr L"
    by simp
  show ?thesis
  proof (cases "d \<le> L")
    case True
    with y d lenD have "newHijriDate e y m d 0 0 0 = Inr (hijri y m d)"
      by (simp add: newHijriDate_valid hijri_def)
    with True d len show ?thesis
      by (simp add: tryCreateDate_def)
  next
    case False
    show ?thesis
    proof (cases p)
      case OMIT
      with False d len show ?thesis
        by (simp add: tryCreateDate_def)
    next
      case BACKWARD
      from y lenD L(1) have "newHijriDate e y m L 0 0 0 = Inr (hijri y m L)"
        by (auto simp add: newHijriDate_valid hijri_def)
      with BACKWARD False d len show ?thesis
        by (simp add: tryCreateDate_def)
    next
      case FORWARD
      show ?thesis
      proof (cases "m = 12")
        case True
        obtain L1 where l1: "getMonthLength e (y + 1) 1 None = Inr L1"
          using getMonthLength_total [of 1 e "y + 1" None] by auto
        from getMonthLength_29_30(1) [OF l1] have "1 \<le> L1"
          by auto
        with y l1 have "newHijriDate e (y + 1) 1 1 0 0 0 = Inr (hijri (y + 1) 1 1)"
          by (simp add: newHijriDate_valid hijri_def)
        with FORWARD False True d len show ?thesis
          by (simp add: tryCreateDate_def)
      next
        case m12: False
        with L have rng: "1 \<le> m + 1" "m + 1 \<le> 12"
          by simp_all
        obtain L1 where l1: "getMonthLength e y (m + 1) None = Inr L1"
          using getMonthLength_total [OF rng, of e y None] by auto
        from getMonthLength_29_30(1) [OF l1] have "1 \<le> L1"
          by auto
        with y l1 have "newHijriDate e y (m + 1) 1 0 0 0 = Inr (hijri y (m + 1) 1)"
          by (simp add: newHijriDate_valid hijri_def)
        with FORWARD False m12 d len show ?thesis
          by (simp add: tryCreateDate_def)
      qed
    qed
  qed
qed

text \<open>
  On the tabular backend the MONTHLY rule with \<open>bymonthday = 30\<close>, start (1446, 1, 30)
  and \<open>count = 3\<close> yields (1446,1,30), (1446,3,30), (1446,5,30) under OMIT,
  (1446,1,30), (1446,2,29), (1446,3,30) under BACKWARD and (1446,1,30), (1446,3,1),
  (1446,3,30) under FORWARD.
\<close>

lemma monthly_day30_sequences:
  "allOf tabularEnv (monthlyDay30 OMIT) = Inr [(1446, 1, 30), (1446, 3, 30), (1446, 5, 30)]
   \<and> allOf tabularEnv (monthlyDay30 BACKWARD) =
        Inr [(1446, 1, 30), (1446, 2, 29), (1446, 3, 30)]
   \<and> allOf tabularEnv (monthlyDay30 FORWARD) =
        Inr [(1446, 1, 30), (1446, 3, 1), (1446, 3, 30)]"
proof -
  have a: "allOf tabularEnv (monthlyDay30 OMIT) =
      Inr [(1446, 1, 30), (1446, 3, 30), (1446, 5, 30)]"
    by code_simp
  have b: "allOf tabularEnv (monthlyDay30 BACKWARD) =
      Inr [(1446, 1, 30), (1446, 2, 29), (1446, 3, 30)]"
    by code_simp
  have c: "allOf tabularEnv (monthlyDay30 FORWARD) =
      Inr [(1446, 1, 30), (1446, 3, 1), (1446, 3, 30)]"
    by code_simp
  from a b c show ?thesis
    by simp
qed

text \<open>
  C1, evaluated.  Under the default configuration, for a rule on the tabular calendar,
  month (1446, 9) has 30 days in the rule's calendar, and the resolver
  \<open>tryCreateDate\<close> still returns no candidate for day 30 under OMIT, under BACKWARD
  and under FORWARD: the constructor validates the day against the default calendar,
  in which the month has 29 days, and the resolver catches its error.  For day 31
  under BACKWARD the resolver constructs day 30 outside that guard and raises the
  invalid-date error.  With the tabular calendar as the default it returns
  (1446, 9, 30) for day 30 and for day 31 under BACKWARD, as the skip policy says.
\<close>

theorem skip_policy_ignores_rule_calendar:
  "getMonthLength umalquraEnv 1446 9 (Some IslamicTbla) = Inr 30
   \<and> tryCreateDate umalquraEnv 1446 9 30 OMIT (Some IslamicTbla) = Inr None
   \<and> tryCreateDate umalquraEnv 1446 9 30 BACKWARD (Some IslamicTbla) = Inr None
   \<and> tryCreateDate umalquraEnv 1446 9 30 FORWARD (Some IslamicTbla) = Inr None
   \<and> tryCreateDate umalquraEnv 1446 9 31 BACKWARD (Some IslamicTbla) = Inl InvalidDate
   \<and> tryCreateDate tabularEnv 1446 9 30 OMIT (Some IslamicTbla)
        = Inr (Some (hijri 1446 9 30))
   \<and> tryCreateDate tabularEnv 1446 9 31 BACKWARD (Some IslamicTbla)
        = Inr (Some (hijri 1446 9 30))"
  by code_simp

theorem skip_policy_ignores_rule_calendar_witness:
  "tryCreateDate umalquraEnv 1446 9 30 BACKWARD (Some IslamicTbla)
     \<noteq> Inr (Some (hijri 1446 9 30))
   \<and> tryCreateDate umalquraEnv 1446 9 31 BACKWARD (Some IslamicTbla)
     \<noteq> Inr (Some (hijri 1446 9 30))"
  using skip_policy_ignores_rule_calendar by simp
section \<open>Range queries\<close>

text \<open>
  C10.  For the tabular MONTHLY rule with \<open>bymonthday = 1\<close> and start (1446, 1, 1),
  \<open>betweenHijri((1446,3,1), (1446,6,1))\<close> with \<open>inc = false\<close> returns (1446,4,1),
  (1446,5,1), and the same query with \<open>inc = true\<close>, asked next of the same rule
  object, returns (1446,3,1), (1446,4,1), (1446,5,1), (1446,6,1); \<open>getBetween\<close> of the
  iterator module returns the same two lists.
\<close>

theorem between_boundary_semantics:
  "betweenTwice tabularEnv monthlyDay1 (hijri 1446 3 1) (hijri 1446 6 1) False True =
     Inr ([(1446, 4, 1), (1446, 5, 1)],
          [(1446, 3, 1), (1446, 4, 1), (1446, 5, 1), (1446, 6, 1)])
   \<and> getBetweenOf tabularEnv monthlyDay1 (hijri 1446 3 1) (hijri 1446 6 1) False =
       Inr [(1446, 4, 1), (1446, 5, 1)]
   \<and> getBetweenOf tabularEnv monthlyDay1 (hijri 1446 3 1) (hijri 1446 6 1) True =
       Inr [(1446, 3, 1), (1446, 4, 1), (1446, 5, 1), (1446, 6, 1)]"
proof -
  have a: "betweenTwice tabularEnv monthlyDay1 (hijri 1446 3 1) (hijri 1446 6 1) False True =
     Inr ([(1446, 4, 1), (1446, 5, 1)],
          [(1446, 3, 1), (1446, 4, 1), (1446, 5, 1), (1446, 6, 1)])"
    by code_simp
  have b: "getBetweenOf tabularEnv monthlyDay1 (hijri 1446 3 1) (hijri 1446 6 1) False =
       Inr [(1446, 4, 1), (1446, 5, 1)]"
    by code_simp
  have c: "getBetweenOf tabularEnv monthlyDay1 (hijri 1446 3 1) (hijri 1446 6 1) True =
       Inr [(1446, 3, 1), (1446, 4, 1), (1446, 5, 1), (1446, 6, 1)]"
    by code_simp
  from a b c show ?thesis
    by simp
qed

theorem between_boundary_semantics_witness:
  "map_sum id fst
     (betweenTwice tabularEnv monthlyDay1 (hijri 1446 3 1) (hijri 1446 6 1) False True)
     = Inr [(1446, 4, 1), (1446, 5, 1)]"
  using between_boundary_semantics by simp

section \<open>The fallback candidate\<close>

text \<open>
  C3, evaluated.  The MONTHLY rule without filters that starts on (1446, 1, 30) yields
  (1446, 1, 30), (1446, 2, 29), (1446, 3, 29): the third month has 30 days, and the
  candidate is day 29, the day of the period cursor after its clamping in the second
  month, not day 30 of the start date.
\<close>

theorem fallback_follows_cursor:
  "allOf tabularEnv monthlyFrom30 = Inr [(1446, 1, 30), (1446, 2, 29), (1446, 3, 29)]
   \<and> getMonthLength tabularEnv 1446 3 (Some IslamicTbla) = Inr 30"
proof -
  have a: "allOf tabularEnv monthlyFrom30 = Inr [(1446, 1, 30), (1446, 2, 29), (1446, 3, 29)]"
    by code_simp
  have b: "getMonthLength tabularEnv 1446 3 (Some IslamicTbla) = Inr 30"
    by code_simp
  from a b show ?thesis
    by simp
qed

theorem fallback_follows_cursor_witness:
  "allOf tabularEnv monthlyFrom30 \<noteq> Inr [(1446, 1, 30), (1446, 2, 29), (1446, 3, 30)]"
  using fallback_follows_cursor by simp

section \<open>The normalizer\<close>

lemma toArray_Many: "toArray (map_option Many xs) = xs"
  by (cases xs) (simp_all add: toArray_def)

lemma allIn_Many: "allIn (map_option Many xs) ok = (case xs of None \<Rightarrow> True | Some l \<Rightarrow> list_all ok l)"
  by (simp add: allIn_def toArray_Many)

lemma allIn_toArray: "allIn v ok = (case toArray v of None \<Rightarrow> True | Some l \<Rightarrow> list_all ok l)"
  by (simp add: allIn_def)

lemma separateMonthDays_fst:
  "separateMonthDays (fst (separateMonthDays ds)) = (fst (separateMonthDays ds), None)"
proof (cases ds)
  case None
  then show ?thesis by (simp add: separateMonthDays_def)
next
  case (Some l)
  show ?thesis
  proof (cases "filter (\<lambda>d. d > 0) l = []")
    case True
    with Some show ?thesis
      by (simp add: separateMonthDays_def nonEmptyOrUndefined_def)
  next
    case False
    have "filter (\<lambda>d. \<not> 0 < d \<and> d < 0) (filter (\<lambda>d. 0 < d) l) = []"
      by (induction l) auto
    with Some False show ?thesis
      by (simp add: separateMonthDays_def nonEmptyOrUndefined_def)
  qed
qed

lemma normalizeWeekdays_spec:
  "normalizeWeekdays (map_option (\<lambda>ws. Many (map WeekdaySpecInput ws)) x) = x"
  by (cases x) (simp_all add: normalizeWeekdays_def normalizeWeekday_def comp_def)

lemma separateWeekdays_fst:
  "separateWeekdays (fst (separateWeekdays ws)) = (fst (separateWeekdays ws), None)"
proof (cases ws)
  case None
  then show ?thesis by (simp add: separateWeekdays_def)
next
  case (Some l)
  show ?thesis
  proof (cases "filter (\<lambda>wd. \<not> n wd \<noteq> None) l = []")
    case True
    with Some show ?thesis
      by (simp add: separateWeekdays_def nonEmptyOrUndefined_def)
  next
    case False
    have "filter (\<lambda>wd. n wd \<noteq> None) (filter (\<lambda>wd. \<not> n wd \<noteq> None) l) = []"
      by (induction l) auto
    with Some False show ?thesis
      by (simp add: separateWeekdays_def nonEmptyOrUndefined_def)
  qed
qed

lemma fst_separateMonthDays_sub:
  assumes "allIn v ok"
  shows "(case fst (separateMonthDays (toArray v)) of None \<Rightarrow> True | Some l \<Rightarrow> list_all ok l)"
proof (cases "toArray v")
  case None
  then show ?thesis by (simp add: separateMonthDays_def)
next
  case (Some l)
  with assms have "list_all ok l"
    by (simp add: allIn_def)
  then have "list_all ok (filter (\<lambda>d. d > 0) l)"
    by (induction l) auto
  with Some show ?thesis
    by (simp add: separateMonthDays_def nonEmptyOrUndefined_def)
qed

lemma validateOptions_Inr:
  "validateOptions opts = Inr u \<longleftrightarrow>
     (\<exists>f. freq' opts = Some f \<and> \<not> (f < YEARLY \<or> f > SECONDLY))
     \<and> \<not> (case interval' opts of None \<Rightarrow> False | Some i \<Rightarrow> i < 1)
     \<and> \<not> (case count' opts of None \<Rightarrow> False | Some c \<Rightarrow> c < 0)
     \<and> allIn (bymonth' opts) (\<lambda>m. \<not> (m < 1 \<or> m > 12))
     \<and> allIn (bymonthday' opts) (\<lambda>d. \<not> (d = 0 \<or> d < - 30 \<or> d > 30))
     \<and> allIn (byyearday' opts) (\<lambda>d. \<not> (d = 0 \<or> d < - 355 \<or> d > 355))
     \<and> allIn (bysetpos' opts) (\<lambda>p. \<not> (p = 0 \<or> p < - 366 \<or> p > 366))
     \<and> allIn (byhour' opts) (\<lambda>h. \<not> (h < 0 \<or> h > 23))
     \<and> allIn (byminute' opts) (\<lambda>m. \<not> (m < 0 \<or> m > 59))
     \<and> allIn (bysecond' opts) (\<lambda>s. \<not> (s < 0 \<or> s > 59))"
  by (cases "freq' opts") (simp_all add: validateOptions_def)

lemma parseOptions_cases:
  assumes "parseOptions e opts = Inr p"
  obtains start fin where "validateOptions opts = Inr ()"
    and "(case dtstart' opts of Some v \<Rightarrow> toHijriDate e v
          | None \<Rightarrow> gregorianToHijri e (now e) None) = Inr start"
    and "(case until' opts of Some v \<Rightarrow> map_sum id Some (toHijriDate e v)
          | None \<Rightarrow> Inr None) = Inr fin"
    and "p = \<lparr>freq = the (freq' opts),
             dtstart = start,
             interval = (case interval' opts of Some i \<Rightarrow> i | None \<Rightarrow> 1),
             wkst = (case wkst' opts of Some w \<Rightarrow> w | None \<Rightarrow> DEFAULT_WKST),
             count = count' opts,
             until = fin,
             tzid = tzid' opts,
             bysetpos = toArray (bysetpos' opts),
             bymonth = toArray (bymonth' opts),
             bymonthday = fst (separateMonthDays (toArray (bymonthday' opts))),
             bynmonthday = snd (separateMonthDays (toArray (bymonthday' opts))),
             byyearday = toArray (byyearday' opts),
             byweekno = toArray (byweekno' opts),
             byweekday = fst (separateWeekdays (normalizeWeekdays (byweekday' opts))),
             bynweekday = snd (separateWeekdays (normalizeWeekdays (byweekday' opts))),
             byhour = toArray (byhour' opts),
             byminute = toArray (byminute' opts),
             bysecond = toArray (bysecond' opts),
             skip = (case skip' opts of Some s \<Rightarrow> s | None \<Rightarrow> OMIT),
             calendar = (case calendar' opts of Some c \<Rightarrow> c
                         | None \<Rightarrow> defaultCalendar e)\<rparr>"
  using assms unfolding parseOptions_def Let_def
  by (auto split: sum.splits)

lemma reparse_result:
  assumes "parseOptions e opts = Inr p"
  shows "parseOptions e (asPartial p) = Inr (p\<lparr>bynmonthday := None, bynweekday := None\<rparr>)"
proof -
  from assms obtain start fin where v: "validateOptions opts = Inr ()"
    and p: "p = \<lparr>freq = the (freq' opts),
             dtstart = start,
             interval = (case interval' opts of Some i \<Rightarrow> i | None \<Rightarrow> 1),
             wkst = (case wkst' opts of Some w \<Rightarrow> w | None \<Rightarrow> DEFAULT_WKST),
             count = count' opts,
             until = fin,
             tzid = tzid' opts,
             bysetpos = toArray (bysetpos' opts),
             bymonth = toArray (bymonth' opts),
             bymonthday = fst (separateMonthDays (toArray (bymonthday' opts))),
             bynmonthday = snd (separateMonthDays (toArray (bymonthday' opts))),
             byyearday = toArray (byyearday' opts),
             byweekno = toArray (byweekno' opts),
             byweekday = fst (separateWeekdays (normalizeWeekdays (byweekday' opts))),
             bynweekday = snd (separateWeekdays (normalizeWeekdays (byweekday' opts))),
             byhour = toArray (byhour' opts),
             byminute = toArray (byminute' opts),
             bysecond = toArray (bysecond' opts),
             skip = (case skip' opts of Some s \<Rightarrow> s | None \<Rightarrow> OMIT),
             calendar = (case calendar' opts of Some c \<Rightarrow> c
                         | None \<Rightarrow> defaultCalendar e)\<rparr>"
    by (rule parseOptions_cases)
  note V = v [unfolded validateOptions_Inr]
  from V obtain f where f: "freq' opts = Some f" "\<not> (f < YEARLY \<or> f > SECONDLY)"
    by blast
  have i: "\<not> interval p < 1"
    using V by (cases "interval' opts") (simp_all add: p)
  have md: "allIn (map_option Many (bymonthday p)) (\<lambda>d. \<not> (d = 0 \<or> d < - 30 \<or> d > 30))"
    using fst_separateMonthDays_sub [of "bymonthday' opts"] V
    by (simp add: allIn_Many p)
  have v2: "validateOptions (asPartial p) = Inr ()"
    unfolding validateOptions_Inr
    using V f i md
    by (simp add: asPartial_def allIn_Many) (simp add: p allIn_toArray)
  have d2: "toHijriDate e (HijriInput (dtstart p)) = Inr (dtstart p)"
    by (simp add: toHijriDate_def)
  have u2: "(case until' (asPartial p) of Some v \<Rightarrow> map_sum id Some (toHijriDate e v)
          | None \<Rightarrow> Inr None) = Inr (until p)"
    by (cases "until p") (simp_all add: asPartial_def toHijriDate_def)
  show ?thesis
    unfolding parseOptions_def Let_def v2 u2
    by (simp add: asPartial_def toArray_Many d2 normalizeWeekdays_spec)
      (simp add: p separateMonthDays_fst separateWeekdays_fst f)
qed


text \<open>
  C7, as the code has it.  For every input that the normalizer accepts, normalizing its
  output again returns the same options field by field, except that \<open>bynmonthday\<close> and
  \<open>bynweekday\<close> come back absent: \<open>parseOptions\<close> reads the month days and the weekdays
  from \<open>bymonthday\<close> and \<open>byweekday\<close> only, which in its output hold the positive days
  and the plain weekdays.  So the output is a fixed point exactly when the input had no
  negative month day and no nth weekday.
\<close>

theorem normalization_fixed_point_amended:
  assumes "parseOptions e opts = Inr p"
  shows "reparse e opts = Inr (p\<lparr>bynmonthday := None, bynweekday := None\<rparr>)
    \<and> (reparse e opts = parseOptions e opts
         \<longleftrightarrow> bynmonthday p = None \<and> bynweekday p = None)"
proof -
  have r: "reparse e opts = Inr (p\<lparr>bynmonthday := None, bynweekday := None\<rparr>)"
    using assms reparse_result [OF assms] by (simp add: reparse_def)
  have "(p\<lparr>bynmonthday := None, bynweekday := None\<rparr> = p)
      \<longleftrightarrow> bynmonthday p = None \<and> bynweekday p = None"
    by (cases p) auto
  with r assms show ?thesis
    by simp
qed

theorem normalization_fixed_point_amended_witness:
  "parseOptions tabularEnv (monthlyDay30 OMIT) = Inr monthlyDay30Parsed
   \<and> reparse tabularEnv (monthlyDay30 OMIT) = Inr monthlyDay30Parsed"
proof -
  have h: "parseOptions tabularEnv (monthlyDay30 OMIT) = Inr monthlyDay30Parsed"
    by code_simp
  have "monthlyDay30Parsed\<lparr>bynmonthday := None, bynweekday := None\<rparr> = monthlyDay30Parsed"
    by (simp add: monthlyDay30Parsed_def)
  with normalization_fixed_point_amended [OF h] h show ?thesis
    by simp
qed

text \<open>
  C7 as stated fails: the rule "monthly on the last day" has \<open>bynmonthday = [-1]\<close> after
  one normalization and no \<open>bynmonthday\<close> after two.
\<close>

theorem normalization_not_idempotent:
  "reparse tabularEnv monthlyLastDay \<noteq> parseOptions tabularEnv monthlyLastDay"
  by code_simp

text \<open>
  The sign-separated month days and the split weekdays of the output are absent or
  non-empty, and the frequency of the output is the one given, within the enum.
\<close>

lemma separated_fields_nonempty:
  assumes "parseOptions e opts = Inr p"
  shows "bymonthday p \<noteq> Some [] \<and> bynmonthday p \<noteq> Some []
    \<and> byweekday p \<noteq> Some [] \<and> bynweekday p \<noteq> Some []
    \<and> freq' opts = Some (freq p) \<and> YEARLY \<le> freq p \<and> freq p \<le> SECONDLY"
proof -
  have a: "fst (separateMonthDays x) \<noteq> Some [] \<and> snd (separateMonthDays x) \<noteq> Some []" for x
    by (cases x) (simp_all add: separateMonthDays_def nonEmptyOrUndefined_def)
  have b: "fst (separateWeekdays x) \<noteq> Some [] \<and> snd (separateWeekdays x) \<noteq> Some []" for x
    by (cases x) (simp_all add: separateWeekdays_def nonEmptyOrUndefined_def)
  from assms obtain start fin where v: "validateOptions opts = Inr ()"
    and md: "bymonthday p = fst (separateMonthDays (toArray (bymonthday' opts)))"
    and nmd: "bynmonthday p = snd (separateMonthDays (toArray (bymonthday' opts)))"
    and wd: "byweekday p = fst (separateWeekdays (normalizeWeekdays (byweekday' opts)))"
    and nwd: "bynweekday p = snd (separateWeekdays (normalizeWeekdays (byweekday' opts)))"
    and fr: "freq p = the (freq' opts)"
    by (rule parseOptions_cases) simp
  from v [unfolded validateOptions_Inr] fr
  have "freq' opts = Some (freq p) \<and> YEARLY \<le> freq p \<and> freq p \<le> SECONDLY"
    by auto
  with a b md nmd wd nwd show ?thesis
    by simp
qed

text \<open>
  C8, evaluated.  The normalizer accepts \<open>bymonth: []\<close> and its output holds \<open>bymonth\<close> as
  an empty array: \<open>toArray\<close> passes an array through as it is, where
  \<open>separateMonthDays\<close> and \<open>separateWeekdays\<close> turn an empty array into \<open>undefined\<close>.
\<close>

theorem empty_array_survives:
  "map_sum id bymonth (parseOptions tabularEnv monthlyNoMonths) = Inr (Some [])"
  by code_simp

theorem empty_array_survives_witness:
  "parseOptions tabularEnv monthlyNoMonths \<noteq> Inl InvalidOption"
  using empty_array_survives by auto

section \<open>The bound on the generator's loop\<close>

lemma iterLoop_bound:
  "iterLoop e p consume M i cur cnt s = Inr (k, s') \<Longrightarrow> i \<le> k \<and> k \<le> max i M"
proof (induction e p consume M i cur cnt s rule: iterLoop.induct)
  case (1 e p consume M i cur cnt s)
  show ?case
  proof (cases "i < M")
    case False
    with "1.prems" show ?thesis
      by (simp add: iterLoop.simps)
  next
    case True
    note lt = True
    from "1.prems" lt obtain cands where g: "generateCandidates e cur p = Inr cands"
      by (subst (asm) iterLoop.simps) (auto split: sum.splits)
    obtain stop cnt' s1 where yl: "yieldLoop p consume
        (case bysetpos p of Some positions \<Rightarrow> applyBySetPos cands positions
         | None \<Rightarrow> cands) cnt s = (stop, cnt', s1)"
      by (metis prod_cases3)
    show ?thesis
    proof (cases stop)
      case True
      with "1.prems" lt g yl show ?thesis
        by (subst (asm) iterLoop.simps) auto
    next
      case False
      note ns = False
      from "1.prems" lt g yl ns obtain cur' where
        adv: "advancePeriod e cur (freq p) (interval p) = Inr cur'"
        by (subst (asm) iterLoop.simps) (auto split: sum.splits)
      show ?thesis
      proof (cases "case until p of None \<Rightarrow> False | Some u \<Rightarrow> isAfter cur' u")
        case True
        with "1.prems" lt g yl ns adv show ?thesis
          by (subst (asm) iterLoop.simps) (auto split: sum.splits)
      next
        case False
        with "1.prems" lt g yl ns adv
        have "iterLoop e p consume M (i + 1) cur' cnt' s1 = Inr (k, s')"
          by (subst (asm) iterLoop.simps) (auto split: sum.splits)
        from "1.IH" [OF lt g yl [symmetric] refl ns adv False this] lt
        show ?thesis
          by auto
      qed
    qed
  qed
qed

lemma tabular_month2:
  "getMonthLength tabularEnv y 2 None = Inr 29"
  "getMonthLength tabularEnv y 2 (Some IslamicTbla) = Inr 29"
  by (simp_all add: getMonthLength_def getCalendarProvider_def tabularEnv_def
      tabular_getMonthLength_def MIN_MONTH_def MAX_MONTH_def MONTH_DAYS_def)

lemma yearlySafar30_parse:
  assumes "c = None \<or> (\<exists>k. c = Some k \<and> 0 \<le> k)"
  shows "parseOptions tabularEnv (yearlySafar30 c) = Inr (yearlySafar30Parsed c)"
  using assms
  by (auto simp add: parseOptions_def validateOptions_def yearlySafar30_def noOptions_def
      yearlySafar30Parsed_def allIn_def toArray_def toHijriDate_def separateMonthDays_def
      separateWeekdays_def normalizeWeekdays_def nonEmptyOrUndefined_def YEARLY_def
      SECONDLY_def DEFAULT_WKST_def tabularEnv_def)

lemma yearlySafar30_candidates:
  "generateCandidates tabularEnv (hijri y 2 1) (yearlySafar30Parsed c) = Inr []"
  by (simp add: generateCandidates_def generateYearlyCandidates_def yearlySafar30Parsed_def
      YEARLY_def present_def elems_def monthCandidates_def tryCreateDate_def tabular_month2
      pushed_def sortAndDedupe_def hijri_def)

lemma yearlySafar30_advance:
  assumes "1 \<le> y"
  shows "advancePeriod tabularEnv (hijri y 2 1) 0 1 = Inr (hijri (y + 1) 2 1)"
proof -
  have "newHijriDate tabularEnv (y + 1) 2 1 0 0 0 = Inr (hijri (y + 1) 2 1)"
    using assms by (simp add: newHijriDate_valid [where L = 29] tabular_month2 hijri_def)
  then show ?thesis
    using assms
    by (simp add: advancePeriod_def YEARLY_def addYears_def orElse_def tabular_month2
        hijri_def)
qed

lemma yearlySafar30_loop:
  assumes "1 \<le> y" and "0 \<le> i"
  shows "iterLoop tabularEnv (yearlySafar30Parsed c) consume M i (hijri y 2 1) cnt s
           = Inr (max i M, s)"
  using assms
proof (induction "nat (M - i)" arbitrary: i y)
  case 0
  then have "\<not> i < M"
    by simp
  then show ?case
    by (simp add: iterLoop.simps)
next
  case (Suc k)
  then have lt: "i < M"
    by linarith
  from Suc.hyps(2) have k: "k = nat (M - (i + 1))"
    by linarith
  from Suc.prems have y1: "1 \<le> y + 1" and i1: "0 \<le> i + 1"
    by simp_all
  have fi: "freq (yearlySafar30Parsed c) = 0" "interval (yearlySafar30Parsed c) = 1"
    "until (yearlySafar30Parsed c) = None" "bysetpos (yearlySafar30Parsed c) = None"
    by (simp_all add: yearlySafar30Parsed_def)
  from Suc.hyps(1) [OF k y1 i1] lt show ?case
    by (subst iterLoop.simps)
      (simp add: yearlySafar30_candidates yearlySafar30_advance [OF Suc.prems(1)] fi)
qed

lemma yearlySafar30_run:
  assumes "c = None \<or> (\<exists>k. c = Some k \<and> 0 \<le> k)"
  shows "runRule tabularEnv (yearlySafar30 c) =
     Inr (case c of None \<Rightarrow> 100000 | Some k \<Rightarrow> if k \<noteq> 0 then k * 100 else 100000, [])"
proof -
  have m: "0 \<le> maxIterationsOf (yearlySafar30Parsed c)"
    using assms by (auto simp add: maxIterationsOf_def yearlySafar30Parsed_def)
  have "iterate tabularEnv (yearlySafar30Parsed c) takeAll [] =
      Inr (maxIterationsOf (yearlySafar30Parsed c), [])"
    using yearlySafar30_loop [of 1446 0 c takeAll "maxIterationsOf (yearlySafar30Parsed c)" 0 "[]"] m
    by (simp add: iterate_def yearlySafar30Parsed_def max_def)
  then show ?thesis
    using yearlySafar30_parse [OF assms]
    by (simp add: runRule_def maxIterationsOf_def yearlySafar30Parsed_def)
qed


text \<open>
  The loop of the generator, as the code has it.  For every normalized rule the loop
  ends: it is defined by recursion on \<open>maxIterations - iterations\<close>.  When the
  generator ends normally, its loop has run at most \<open>count * 100\<close> times if a count
  other than 0 is set and at most 100000 times if no count is set or the count is 0; a
  loop that has reached the bound ends without an error; and the YEARLY rule on day 30
  of month 2, which never matches on the tabular calendar, runs the loop exactly that
  many times and ends without a date and without an error.
\<close>

theorem bounded_enumeration:
  assumes "parseOptions e opts = Inr p"
  shows "(\<forall>consume s k s'. iterate e p consume s = Inr (k, s') \<longrightarrow>
            0 \<le> k \<and> k \<le> (case count p of None \<Rightarrow> 100000
                              | Some c \<Rightarrow> if c \<noteq> 0 then c * 100 else 100000))
    \<and> (\<forall>consume cur cnt s.
          iterLoop e p consume (maxIterationsOf p) (maxIterationsOf p) cur cnt s
            = Inr (maxIterationsOf p, s))
    \<and> (\<forall>c. c = None \<or> (\<exists>k. c = Some k \<and> 0 \<le> k) \<longrightarrow>
          runRule tabularEnv (yearlySafar30 c) =
            Inr (case c of None \<Rightarrow> 100000
                 | Some k \<Rightarrow> if k \<noteq> 0 then k * 100 else 100000, []))"
proof (intro conjI allI impI)
  from assms obtain start :: HijriDate and fin :: "HijriDate option"
    where v: "validateOptions opts = Inr ()" and c: "count p = count' opts"
    by (rule parseOptions_cases) simp
  from v [unfolded validateOptions_Inr]
  have nn: "case count p of None \<Rightarrow> True | Some k \<Rightarrow> 0 \<le> k"
    by (cases "count' opts") (simp_all add: c)
  then have m: "0 \<le> maxIterationsOf p"
    by (cases "count p") (simp_all add: maxIterationsOf_def)
  fix consume :: "'a consumer" and s k s'
  assume "iterate e p consume s = Inr (k, s')"
  then have "0 \<le> k \<and> k \<le> max 0 (maxIterationsOf p)"
    unfolding iterate_def by (rule iterLoop_bound)
  with m have km: "0 \<le> k \<and> k \<le> maxIterationsOf p"
    by simp
  from km show "0 \<le> k"
    by simp
  from km show "k \<le> (case count p of None \<Rightarrow> 100000
                        | Some c \<Rightarrow> if c \<noteq> 0 then c * 100 else 100000)"
    by (simp add: maxIterationsOf_def)
next
  fix consume :: "'b consumer" and cur cnt s
  show "iterLoop e p consume (maxIterationsOf p) (maxIterationsOf p) cur cnt s
          = Inr (maxIterationsOf p, s)"
    by (simp add: iterLoop.simps)
next
  fix c :: "int option"
  assume "c = None \<or> (\<exists>k. c = Some k \<and> 0 \<le> k)"
  then show "runRule tabularEnv (yearlySafar30 c) =
      Inr (case c of None \<Rightarrow> 100000 | Some k \<Rightarrow> if k \<noteq> 0 then k * 100 else 100000, [])"
    by (rule yearlySafar30_run)
qed

theorem bounded_enumeration_witness:
  "parseOptions tabularEnv (yearlySafar30 (Some 1)) = Inr (yearlySafar30Parsed (Some 1))
   \<and> runRule tabularEnv (yearlySafar30 (Some 1)) = Inr (100, [])"
proof -
  have h: "parseOptions tabularEnv (yearlySafar30 (Some 1))
      = Inr (yearlySafar30Parsed (Some 1))"
    by (rule yearlySafar30_parse) simp
  from bounded_enumeration [OF h]
  have "\<forall>c. c = None \<or> (\<exists>k. c = Some k \<and> 0 \<le> k) \<longrightarrow>
          runRule tabularEnv (yearlySafar30 c) =
            Inr (case c of None \<Rightarrow> 100000
                 | Some k \<Rightarrow> if k \<noteq> 0 then k * 100 else 100000, [])"
    by (elim conjE)
  then have "runRule tabularEnv (yearlySafar30 (Some 1)) =
      Inr (case Some (1::int) of None \<Rightarrow> 100000
           | Some k \<Rightarrow> if k \<noteq> 0 then k * 100 else 100000, [])"
    by (elim allE [where x = "Some 1"]) simp
  then have r: "runRule tabularEnv (yearlySafar30 (Some 1)) = Inr (100, [])"
    by simp
  with h show ?thesis
    by simp
qed

text \<open>
  C6, evaluated.  The normalizer accepts a count of 0, and the generator then takes
  the ceiling of a rule without a count: the never-matching YEARLY rule runs its loop
  100000 times with \<open>count = 0\<close>, where it runs 100 times with \<open>count = 1\<close>.  The
  test of the count after a \<open>yield\<close> does see the 0, so the MONTHLY rule on day 1 from
  (1446, 1, 1) with \<open>count = 0\<close> yields one date, as with \<open>count = 1\<close>.
\<close>

theorem count_zero_treated_as_unset:
  "parseOptions tabularEnv (yearlySafar30 (Some 0)) = Inr (yearlySafar30Parsed (Some 0))
   \<and> runRule tabularEnv (yearlySafar30 (Some 0)) = Inr (100000, [])
   \<and> runRule tabularEnv (yearlySafar30 None) = Inr (100000, [])
   \<and> runRule tabularEnv (yearlySafar30 (Some 1)) = Inr (100, [])
   \<and> runRule tabularEnv (monthlyDay1Count 0) = Inr (1, [(1446, 1, 1)])
   \<and> runRule tabularEnv (monthlyDay1Count 1) = Inr (1, [(1446, 1, 1)])"
proof -
  have p: "parseOptions tabularEnv (yearlySafar30 (Some 0))
      = Inr (yearlySafar30Parsed (Some 0))"
    by (rule yearlySafar30_parse) simp
  have a: "runRule tabularEnv (yearlySafar30 (Some 0)) = Inr (100000, [])"
    using yearlySafar30_run [of "Some 0"] by simp
  have b: "runRule tabularEnv (yearlySafar30 None) = Inr (100000, [])"
    using yearlySafar30_run [of None] by simp
  have c: "runRule tabularEnv (yearlySafar30 (Some 1)) = Inr (100, [])"
    using yearlySafar30_run [of "Some 1"] by simp
  have d: "runRule tabularEnv (monthlyDay1Count 0) = Inr (1, [(1446, 1, 1)])"
    by code_simp
  have e: "runRule tabularEnv (monthlyDay1Count 1) = Inr (1, [(1446, 1, 1)])"
    by code_simp
  from p a b c d e show ?thesis
    by simp
qed

theorem count_zero_treated_as_unset_witness:
  "runRule tabularEnv (yearlySafar30 (Some 0)) \<noteq> Inr (0, [])
   \<and> runRule tabularEnv (monthlyDay1Count 0) \<noteq> Inr (0, [])"
  using count_zero_treated_as_unset by simp
section \<open>Rules under the default configuration\<close>

text \<open>
  C9, evaluated.  Under the default configuration a rule on the tabular calendar,
  MONTHLY on the last day of the month from (1446, 9, 1), raises the invalid-date error
  in its first period: the generator takes the month length 30 from the rule's
  calendar and constructs (1446, 9, 30), and the constructor validates it against the
  default calendar, in which the month has 29 days.
\<close>

theorem generation_raises_invalid_date:
  "runRule umalquraEnv tabularLastDayOfRamadan = Inl InvalidDate"
  by code_simp

theorem generation_raises_invalid_date_witness:
  "runRule umalquraEnv tabularLastDayOfRamadan \<noteq> Inr (1, [(1446, 9, 30)])"
  using generation_raises_invalid_date by simp

text \<open>
  C4, evaluated.  Under the default configuration the DAILY rule from (1445, 12, 29)
  yields (1445, 12, 29), (1445, 12, 30) and then (1445, 12, 29) again, in the 31st
  pass of the loop: the day after (1445, 12, 30) is computed as (1445, 12, 1), because
  the day number counts the months of the default calendar (354 days in 1445) inside
  the years of the tabular cycle (355 days in 1445).
\<close>

theorem daily_rule_goes_back:
  "runRule umalquraEnv dailyFromYearEnd =
     Inr (31, [(1445, 12, 29), (1445, 12, 30), (1445, 12, 29)])"
  by code_simp

theorem daily_rule_goes_back_witness:
  "map_sum id snd (runRule umalquraEnv dailyFromYearEnd) \<noteq>
     Inr [(1445, 12, 29), (1445, 12, 30), (1446, 1, 1)]"
  using daily_rule_goes_back by simp


section \<open>Gregorian dates through the Julian day number\<close>

text \<open>
  C2, evaluated.  \<open>gregorianToJulianDay\<close> reads the fields of a \<open>Date\<close>, which are
  proleptic Gregorian, for every date; \<open>julianDayToGregorian\<close> applies the Gregorian
  correction only from day number 2299161 on, and below it passes the fields of the
  Julian calendar to \<open>Date.UTC\<close>.  So 15 October 1582 comes back as itself, and
  14 October 1582, which is 16 Ramadan 990, comes back as 4 October 1582; 1 January
  1000, which is 15 Muharram 390, comes back as 27 December 999.  The Hijri epoch
  \<open>HIJRI_EPOCH_JD\<close> is the day number of 19 July 622 at midnight and comes back as
  16 July 622, and the day number of that result lies before the epoch, so that
  converting it to a Hijri date fails.
\<close>

theorem gregorian_round_trip_fails_before_1582:
  "isUTCDate (utcMidnight 1582 10 15)
   \<and> gymd (julianDayToGregorian (gregorianToJulianDay (utcMidnight 1582 10 15)))
        = (1582, 10, 15)
   \<and> isUTCDate (utcMidnight 1582 10 14)
   \<and> map_sum id ymd (julianDayToHijri tabularEnv (gregorianToJulianDay (utcMidnight 1582 10 14)))
        = Inr (990, 9, 16)
   \<and> gymd (julianDayToGregorian (gregorianToJulianDay (utcMidnight 1582 10 14)))
        = (1582, 10, 4)
   \<and> isUTCDate (utcMidnight 1000 1 1)
   \<and> map_sum id ymd (julianDayToHijri tabularEnv (gregorianToJulianDay (utcMidnight 1000 1 1)))
        = Inr (390, 1, 15)
   \<and> gymd (julianDayToGregorian (gregorianToJulianDay (utcMidnight 1000 1 1)))
        = (999, 12, 27)
   \<and> isUTCDate (utcMidnight 622 7 19)
   \<and> gregorianToJulianDay (utcMidnight 622 7 19) = HIJRI_EPOCH_JD
   \<and> map_sum id ymd (julianDayToHijri tabularEnv HIJRI_EPOCH_JD) = Inr (1, 1, 1)
   \<and> gymd (julianDayToGregorian HIJRI_EPOCH_JD) = (622, 7, 16)
   \<and> julianDayToHijri tabularEnv (gregorianToJulianDay (julianDayToGregorian HIJRI_EPOCH_JD))
        = Inl BeforeEpoch"
  by code_simp

theorem gregorian_round_trip_fails_before_1582_witness:
  "gymd (julianDayToGregorian (gregorianToJulianDay (utcMidnight 1582 10 14)))
     \<noteq> gymd (utcMidnight 1582 10 14)
   \<and> gymd (julianDayToGregorian (gregorianToJulianDay (utcMidnight 622 7 19)))
     \<noteq> gymd (utcMidnight 622 7 19)"
  using gregorian_round_trip_fails_before_1582 by (simp add: gymd_def utcMidnight_def)

end
